theory Spec2Isabelle
  imports Main
begin

section \<open>Values exchanged by the gateway\<close>

text \<open>
  The gateway is an Express application that exists in two variants in the repository:
  \<^verbatim>\<open>proxy-server.js\<close> and a second, unnamed server file (called \<^emph>\<open>the server file\<close> below,
  definitions prefixed \<open>server_\<close>). Both receive a multipart upload on \<^verbatim>\<open>POST /analyze\<close>,
  forward it with axios to the upstream service and map the outcome to an HTTP response.

  JavaScript values that cross the handler are JSON documents: the value axios delivers in
  \<^verbatim>\<open>hfResponse.data\<close> and \<^verbatim>\<open>error.response.data\<close>, and the argument of \<^verbatim>\<open>res.json\<close>.
  A number is held as the text JavaScript prints for it (\<^verbatim>\<open>0.97\<close>, \<^verbatim>\<open>1\<close>,
  \<^verbatim>\<open>9007199254740992\<close>), so that every number a JavaScript value can hold has a
  representation and none is rounded by the embedding. An object is the list of its
  properties in the order in which JavaScript enumerates them.
\<close>

datatype json =
    JNull
  | JBool bool
  | JNum string
  | JStr string
  | JArr "json list"
  | JObj "(string \<times> json) list"

text \<open>
  An object literal handed to \<^verbatim>\<open>res.json\<close> may hold properties whose value is
  \<^verbatim>\<open>undefined\<close>; serialisation leaves those properties out.
\<close>

fun object_literal :: "(string \<times> json option) list \<Rightarrow> (string \<times> json) list" where
  "object_literal [] = []"
| "object_literal ((k, None) # ps) = object_literal ps"
| "object_literal ((k, Some v) # ps) = (k, v) # object_literal ps"

subsection \<open>JSON text\<close>

text \<open>
  Modelled from the spec: the serialisation of a response body, which the spec calls the
  relay of a JSON body and which the sources leave to \<^verbatim>\<open>res.json\<close>, that is to
  JavaScript's \<^verbatim>\<open>JSON.stringify\<close>; neither Express nor the JavaScript runtime is among the
  repository's sources. \<^verbatim>\<open>JSON.stringify\<close> writes no white space, separates with
  \<^verbatim>\<open>,\<close> and \<^verbatim>\<open>:\<close>, and inside a string escapes the quote, the backslash and the
  control characters.
\<close>

definition hex_digit :: "nat \<Rightarrow> char" where
  "hex_digit n = ''0123456789abcdef'' ! (n mod 16)"

definition escape_char :: "char \<Rightarrow> string" where
  "escape_char c =
     (if c = CHR 0x22 then [CHR 0x5C, CHR 0x22]
      else if c = CHR 0x5C then [CHR 0x5C, CHR 0x5C]
      else if c = CHR 0x08 then [CHR 0x5C, CHR ''b'']
      else if c = CHR 0x09 then [CHR 0x5C, CHR ''t'']
      else if c = CHR 0x0A then [CHR 0x5C, CHR ''n'']
      else if c = CHR 0x0C then [CHR 0x5C, CHR ''f'']
      else if c = CHR 0x0D then [CHR 0x5C, CHR ''r'']
      else if (of_char c :: nat) < 32
           then [CHR 0x5C, CHR ''u'', CHR ''0'', CHR ''0'',
                 hex_digit (of_char c div 16), hex_digit (of_char c)]
           else [c])"

definition quote :: "string \<Rightarrow> string" where
  "quote s = CHR 0x22 # concat (map escape_char s) @ [CHR 0x22]"

fun commas :: "string list \<Rightarrow> string" where
  "commas [] = []"
| "commas [x] = x"
| "commas (x # y # zs) = x @ '','' @ commas (y # zs)"

fun JSON_stringify :: "json \<Rightarrow> string" where
  "JSON_stringify JNull = ''null''"
| "JSON_stringify (JBool b) = (if b then ''true'' else ''false'')"
| "JSON_stringify (JNum t) = t"
| "JSON_stringify (JStr s) = quote s"
| "JSON_stringify (JArr vs) = ''['' @ commas (map JSON_stringify vs) @ '']''"
| "JSON_stringify (JObj ps) =
     ''{'' @ commas (map (\<lambda>p. quote (fst p) @ '':'' @ JSON_stringify (snd p)) ps) @ ''}''"

text \<open>
  Modelled from the spec: the reading of the upstream's body, which the spec calls the
  upstream's JSON body and which axios, not among the repository's sources, performs with
  \<^verbatim>\<open>JSON.parse\<close> before the handler sees \<^verbatim>\<open>hfResponse.data\<close>. The reader below covers a
  fragment of JSON and answers \<open>None\<close> for every other text, whether JavaScript rejects it
  or reads it: the literals \<^verbatim>\<open>null\<close>, \<^verbatim>\<open>true\<close>, \<^verbatim>\<open>false\<close>; strings of printable ASCII
  characters without escapes; arrays; objects whose keys are distinct and none made of
  digits only (JavaScript keeps such properties in the order of the text); white space
  between tokens. Numbers are outside the fragment. The fuel bounds the number of nested
  calls; the reader is started with more than twice the length of the text.
\<close>

definition is_ws :: "char \<Rightarrow> bool" where
  "is_ws c = (c = CHR '' '' \<or> c = CHR 0x09 \<or> c = CHR 0x0A \<or> c = CHR 0x0D)"

definition skip_ws :: "string \<Rightarrow> string" where
  "skip_ws cs = dropWhile is_ws cs"









subsection \<open>Responses\<close>

text \<open>
  A response body is the document given to \<^verbatim>\<open>res.json\<close>, a plain text given to
  \<^verbatim>\<open>res.send\<close>, or nothing. \<open>wire\<close> is the text that goes out.
\<close>

datatype body = JsonBody json | TextBody string | NoBody

record http_response =
  status :: nat
  body :: body

fun wire :: "body \<Rightarrow> string" where
  "wire (JsonBody v) = JSON_stringify v"
| "wire (TextBody t) = t"
| "wire NoBody = []"

text \<open>
  Modelled from the spec: \<^verbatim>\<open>res.status(s).json(v)\<close> of Express, which is not among the
  repository's sources; the spec speaks of a JSON body with a status. Express sends the
  serialised document, except that for the statuses that carry no body in HTTP (the
  informational ones, 204, 205 and 304) it sends the status alone.
\<close>

definition bodiless :: "nat \<Rightarrow> bool" where
  "bodiless s = (s < 200 \<or> s = 204 \<or> s = 205 \<or> s = 304)"

definition res_json :: "nat \<Rightarrow> json \<Rightarrow> http_response" where
  "res_json s v = \<lparr> status = s, body = (if bodiless s then NoBody else JsonBody v) \<rparr>"

subsection \<open>Requests\<close>

text \<open>
  \<^verbatim>\<open>req.file\<close> as multer's memory storage leaves it: the content of the uploaded part, and
  the filename and the content type as multer reports them after decoding the part's
  headers.
\<close>

record uploaded_file =
  buffer :: string
  originalname :: string
  mimetype :: string

text \<open>
  A field of \<^verbatim>\<open>req.body\<close> as multer leaves it: a string, or, for a field name that is
  repeated or written with brackets, an array or an object. \<^verbatim>\<open>formData.append\<close> of the
  form-data package throws for an array (\<^verbatim>\<open>Arrays are not supported.\<close>) and for an object;
  \<open>Structured m\<close> is such a value, \<open>m\<close> the message of the error thrown for it.
\<close>

datatype field_value = Text string | Structured string

text \<open>
  A \<^verbatim>\<open>POST\<close> request to \<^verbatim>\<open>/analyze\<close> as the middleware chain reads it: the \<^verbatim>\<open>Origin\<close>
  header, \<^verbatim>\<open>req.ip\<close>, the \<^verbatim>\<open>x-forwarded-for\<close> header, the time of arrival in
  milliseconds, \<^verbatim>\<open>req.file\<close> (the field \<open>req_file\<close>) and \<^verbatim>\<open>req.body.context_json\<close>. A
  value that JavaScript reads as \<^verbatim>\<open>undefined\<close> is \<open>None\<close>.
\<close>

record request =
  origin :: "string option"
  ip :: "string option"
  forwarded_for :: "string option"
  arrival :: nat
  req_file :: "uploaded_file option"
  context_json :: "field_value option"

text \<open>\<^verbatim>\<open>process.env\<close>, the variables the two files read.\<close>

record env =
  HF_SPACE_URL :: "string option"
  HF_TOKEN :: "string option"
  NODE_ENV :: "string option"
  ALLOWED_ORIGINS :: "string option"

text \<open>
  The calls of \<^verbatim>\<open>formData.append\<close>, in order, with their arguments: the name, the value,
  and for the file the options \<^verbatim>\<open>filename\<close> and \<^verbatim>\<open>contentType\<close>. How the form-data package
  encodes them into the bytes of the multipart body is not part of the embedding.
\<close>

datatype form_part =
    FilePart string string string string
  | TextPart string string

text \<open>The arguments of \<^verbatim>\<open>axios.post\<close>.\<close>

record axios_request =
  url :: string
  form :: "form_part list"
  authorization :: string
  timeout :: nat
  maxBodyLength :: nat
  maxContentLength :: nat

text \<open>
  What \<^verbatim>\<open>await axios.post(...)\<close> yields: a response, or a thrown error object. The error
  caught by the handler is read through \<^verbatim>\<open>error.code\<close>, \<^verbatim>\<open>error.response\<close> and
  \<^verbatim>\<open>error.message\<close>; an error thrown by \<^verbatim>\<open>formData.append\<close> has neither code nor response.
\<close>

record hf_response =
  hf_status :: nat
  hf_data :: json

record axios_error =
  code :: "string option"
  response :: "hf_response option"
  message :: string

datatype axios_result = Resolved hf_response | Rejected axios_error

definition thrown :: "string \<Rightarrow> axios_error" where
  "thrown m = \<lparr> code = None, response = None, message = m \<rparr>"

text \<open>
  The statuses with which axios rejects while carrying a response: those of a final HTTP
  response outside 2xx.
\<close>

definition rejected_status :: "nat \<Rightarrow> bool" where
  "rejected_status s = (300 \<le> s \<and> s \<le> 999)"

section \<open>The \<^verbatim>\<open>/analyze\<close> handler\<close>

text \<open>A field of \<^verbatim>\<open>req.body\<close> used as a condition: arrays and objects are truthy.\<close>

definition truthy :: "field_value option \<Rightarrow> bool" where
  "truthy v =
     (case v of
        None \<Rightarrow> False
      | Some (Text s) \<Rightarrow> s \<noteq> []
      | Some (Structured m) \<Rightarrow> True)"

text \<open>A template literal prints \<^verbatim>\<open>undefined\<close> for a variable that is not set.\<close>

definition interpolate :: "string option \<Rightarrow> string" where
  "interpolate v = (case v of None \<Rightarrow> ''undefined'' | Some s \<Rightarrow> s)"

text \<open>
  \<^verbatim>\<open>
  const formData = new FormData();
  formData.append('image', req.file.buffer, {
      filename: req.file.originalname,
      contentType: req.file.mimetype
  });
  if (req.body.context_json) {
      formData.append('context_json', req.body.context_json);
  }
  \<close>
  The result is the form, or the message of the error that the second \<^verbatim>\<open>append\<close> throws.
\<close>

definition build_form :: "request \<Rightarrow> uploaded_file \<Rightarrow> string + form_part list" where
  "build_form req f =
     (if truthy (context_json req)
      then (case context_json req of
              None \<Rightarrow> Inr [FilePart ''image'' (buffer f) (originalname f) (mimetype f)]
            | Some (Text s) \<Rightarrow>
                Inr [FilePart ''image'' (buffer f) (originalname f) (mimetype f),
                     TextPart ''context_json'' s]
            | Some (Structured m) \<Rightarrow> Inl m)
      else Inr [FilePart ''image'' (buffer f) (originalname f) (mimetype f)])"

definition outbound_call :: "env \<Rightarrow> form_part list \<Rightarrow> axios_request" where
  "outbound_call e fd =
     \<lparr> url = interpolate (HF_SPACE_URL e) @ ''/analyze'',
       form = fd,
       authorization = ''Bearer '' @ interpolate (HF_TOKEN e),
       timeout = 120000,
       maxBodyLength = 100 * 1024 * 1024,
       maxContentLength = 100 * 1024 * 1024 \<rparr>"

definition no_file_response :: http_response where
  "no_file_response = res_json 400 (JObj [(''error'', JStr ''No image file provided'')])"

text \<open>The \<^verbatim>\<open>catch\<close> block of the server file.\<close>

definition server_catch :: "axios_error \<Rightarrow> http_response" where
  "server_catch err =
     (if code err = Some ''ECONNABORTED''
      then res_json 504 (JObj [(''error'', JStr ''Analysis timeout'')])
      else case response err of
             Some r \<Rightarrow>
               res_json (hf_status r)
                 (JObj [(''error'', JStr ''Analysis service error''), (''details'', hf_data r)])
           | None \<Rightarrow> res_json 500 (JObj [(''error'', JStr ''Internal server error'')]))"

text \<open>
  The \<^verbatim>\<open>catch\<close> block of \<^verbatim>\<open>proxy-server.js\<close>: another timeout text, and the error's
  message in the fallback body when \<^verbatim>\<open>NODE_ENV\<close> is \<^verbatim>\<open>development\<close>.
\<close>

definition proxy_catch :: "env \<Rightarrow> axios_error \<Rightarrow> http_response" where
  "proxy_catch e err =
     (if code err = Some ''ECONNABORTED''
      then res_json 504
             (JObj [(''error'', JStr ''Analysis timeout - the AI model took too long to respond'')])
      else case response err of
             Some r \<Rightarrow>
               res_json (hf_status r)
                 (JObj [(''error'', JStr ''Analysis service error''), (''details'', hf_data r)])
           | None \<Rightarrow>
               res_json 500
                 (JObj (object_literal
                    [(''error'', Some (JStr ''Internal server error'')),
                     (''message'', if NODE_ENV e = Some ''development''
                                   then Some (JStr (message err)) else None)])))"

text \<open>
  The handler of \<^verbatim>\<open>app.post('/analyze', upload.single('image'), ...)\<close>. The upstream is the
  function \<open>axios_post\<close>; the handler returns its response together with the outbound calls
  it issued, in order. An error thrown while the form is built is caught by the same
  \<^verbatim>\<open>catch\<close> block, before any call. \<^verbatim>\<open>res.json\<close> without \<^verbatim>\<open>res.status\<close> answers 200.
\<close>

definition server_analyze ::
  "env \<Rightarrow> (axios_request \<Rightarrow> axios_result) \<Rightarrow> request \<Rightarrow> http_response \<times> axios_request list" where
  "server_analyze e axios_post req =
     (case req_file req of
        None \<Rightarrow> (no_file_response, [])
      | Some f \<Rightarrow>
          (case build_form req f of
             Inl m \<Rightarrow> (server_catch (thrown m), [])
           | Inr fd \<Rightarrow>
               (let call = outbound_call e fd in
                case axios_post call of
                  Resolved hfResponse \<Rightarrow> (res_json 200 (hf_data hfResponse), [call])
                | Rejected err \<Rightarrow> (server_catch err, [call]))))"

definition proxy_analyze ::
  "env \<Rightarrow> (axios_request \<Rightarrow> axios_result) \<Rightarrow> request \<Rightarrow> http_response \<times> axios_request list" where
  "proxy_analyze e axios_post req =
     (case req_file req of
        None \<Rightarrow> (no_file_response, [])
      | Some f \<Rightarrow>
          (case build_form req f of
             Inl m \<Rightarrow> (proxy_catch e (thrown m), [])
           | Inr fd \<Rightarrow>
               (let call = outbound_call e fd in
                case axios_post call of
                  Resolved hfResponse \<Rightarrow> (res_json 200 (hf_data hfResponse), [call])
                | Rejected err \<Rightarrow> (proxy_catch e err, [call]))))"

text \<open>A stubbed upstream that answers every call with the same outcome.\<close>

definition stub_upstream :: "axios_result \<Rightarrow> axios_request \<Rightarrow> axios_result" where
  "stub_upstream outcome call = outcome"

section \<open>Cross-origin access\<close>

text \<open>\<^verbatim>\<open>String.prototype.split\<close> with a one-character separator.\<close>

fun split_on :: "char \<Rightarrow> string \<Rightarrow> string list" where
  "split_on c [] = [[]]"
| "split_on c (x # xs) =
     (if x = c then [] # split_on c xs
      else (case split_on c xs of
              [] \<Rightarrow> [[x]]
            | p # ps \<Rightarrow> (x # p) # ps))"

text \<open>The list written in the \<^verbatim>\<open>origin\<close> callback of the server file.\<close>

definition allowedOrigins :: "string list" where
  "allowedOrigins =
     [''http://localhost:5500'',
      ''http://localhost:5501'',
      ''http://localhost:5502'',
      ''http://127.0.0.1:5500'',
      ''http://127.0.0.1:5501'',
      ''http://127.0.0.1:5502'',
      ''http://localhost:3000'',
      ''http://localhost:8080'',
      ''https://chestexpertprime.vercel.app'',
      ''platform.dasmedhub.com'',
      ''https://proxy-twjq.onrender.com'']"

text \<open>
  \<^verbatim>\<open>
  if (process.env.ALLOWED_ORIGINS) {
      const envOrigins = process.env.ALLOWED_ORIGINS.split(',');
      allowedOrigins.push(...envOrigins);
  }
  \<close>
\<close>

definition envOrigins :: "env \<Rightarrow> string list" where
  "envOrigins e =
     (case ALLOWED_ORIGINS e of
        None \<Rightarrow> []
      | Some s \<Rightarrow> if s = [] then [] else split_on CHR '','' s)"

text \<open>
  The callback's two answers: \<^verbatim>\<open>callback(null, true)\<close> and
  \<^verbatim>\<open>callback(new Error('Not allowed by CORS'))\<close>.
\<close>

datatype cors_answer = Granted | NotAllowedByCORS

text \<open>
  \<^verbatim>\<open>
  if (!origin) return callback(null, true);
  ...
  if (allowedOrigins.includes(origin) || process.env.NODE_ENV !== 'production') {
      callback(null, true);
  } else {
      callback(new Error('Not allowed by CORS'));
  }
  \<close>
\<close>

definition server_cors_origin :: "env \<Rightarrow> string option \<Rightarrow> cors_answer" where
  "server_cors_origin e orig =
     (case orig of
        None \<Rightarrow> Granted
      | Some s \<Rightarrow>
          if s = [] then Granted
          else if s \<in> set (allowedOrigins @ envOrigins e) \<or> NODE_ENV e \<noteq> Some ''production''
               then Granted
               else NotAllowedByCORS)"

text \<open>
  \<^verbatim>\<open>proxy-server.js\<close> gives the cors package a setting instead of a callback:
  \<^verbatim>\<open>origin: process.env.ALLOWED_ORIGINS?.split(',') || '*'\<close>. An array is truthy even when
  it is \<^verbatim>\<open>['']\<close>, so the wildcard is chosen only when the variable is not set.
\<close>

datatype origin_setting = AnyOrigin | OriginList "string list"

definition proxy_cors_origin :: "env \<Rightarrow> origin_setting" where
  "proxy_cors_origin e =
     (case ALLOWED_ORIGINS e of
        None \<Rightarrow> AnyOrigin
      | Some s \<Rightarrow> OriginList (split_on CHR '','' s))"

text \<open>
  Modelled from the spec: the cors package, which is not among the repository's sources.
  The spec asks that a request from an origin that is not allowed gets no permissive CORS
  header, and that a request with no \<^verbatim>\<open>Origin\<close> header is always served. Given the
  callback's answer (server file) or the setting (\<^verbatim>\<open>proxy-server.js\<close>), the package either
  passes the callback's error on, so that the error-handling middleware answers, or lets
  the request proceed, with or without the header \<^verbatim>\<open>Access-Control-Allow-Origin\<close>. For the
  wildcard the header is \<^verbatim>\<open>*\<close>. For a callback that answered \<^verbatim>\<open>true\<close>, and for an array
  that holds the request's origin, the header repeats the request's \<^verbatim>\<open>Origin\<close>, and is left
  out when that is absent or empty. For an array that does not hold it there is no header.
\<close>

datatype cors_outcome = Stopped | Proceeds "string option"

definition reflect :: "string option \<Rightarrow> string option" where
  "reflect orig = (case orig of None \<Rightarrow> None | Some s \<Rightarrow> if s = [] then None else Some s)"

definition server_cors :: "env \<Rightarrow> string option \<Rightarrow> cors_outcome" where
  "server_cors e orig =
     (case server_cors_origin e orig of
        NotAllowedByCORS \<Rightarrow> Stopped
      | Granted \<Rightarrow> Proceeds (reflect orig))"

definition proxy_cors :: "env \<Rightarrow> string option \<Rightarrow> cors_outcome" where
  "proxy_cors e orig =
     (case proxy_cors_origin e of
        AnyOrigin \<Rightarrow> Proceeds (Some ''*'')
      | OriginList xs \<Rightarrow>
          (case orig of
             None \<Rightarrow> Proceeds None
           | Some s \<Rightarrow> if s \<in> set xs then Proceeds (reflect orig) else Proceeds None))"

text \<open>
  Cross-origin access is granted to the origin \<open>s\<close>: the response carries the header with the
  wildcard or with \<open>s\<close>.
\<close>

definition grants :: "cors_outcome \<Rightarrow> string \<Rightarrow> bool" where
  "grants out s =
     (case out of
        Stopped \<Rightarrow> False
      | Proceeds h \<Rightarrow> (case h of None \<Rightarrow> False | Some v \<Rightarrow> v = ''*'' \<or> v = s))"

section \<open>Rate limiting\<close>

text \<open>
  Both files configure \<^verbatim>\<open>rateLimit({ windowMs: 15 * 60 * 1000, max: 50, ... })\<close> and mount it
  with \<^verbatim>\<open>app.use('/analyze', limiter)\<close>.
\<close>

definition windowMs :: nat where
  "windowMs = 15 * 60 * 1000"

definition max_hits :: nat where
  "max_hits = 50"

text \<open>
  The server file: \<^verbatim>\<open>req.ip || req.headers['x-forwarded-for'] || 'unknown'\<close>.
  \<^verbatim>\<open>proxy-server.js\<close> sets no key generator and the limiter keys on \<^verbatim>\<open>req.ip\<close>.
\<close>

definition server_keyGenerator :: "request \<Rightarrow> string" where
  "server_keyGenerator req =
     (case ip req of
        Some a \<Rightarrow> if a \<noteq> [] then a
                  else (case forwarded_for req of
                          Some x \<Rightarrow> if x \<noteq> [] then x else ''unknown''
                        | None \<Rightarrow> ''unknown'')
      | None \<Rightarrow> (case forwarded_for req of
                   Some x \<Rightarrow> if x \<noteq> [] then x else ''unknown''
                 | None \<Rightarrow> ''unknown''))"

definition proxy_keyGenerator :: "request \<Rightarrow> string" where
  "proxy_keyGenerator req = interpolate (ip req)"

text \<open>
  Modelled from the spec: the counting store of the express-rate-limit package, which is
  not among the repository's sources. The spec describes a fixed-window counter per client
  identifier: a client's first request opens a window of \<open>windowMs\<close> milliseconds, every
  request inside the window adds one hit, and a request that arrives when the window is
  over opens the next one. The store maps a client identifier to its number of hits and the
  time at which its window ends; a client never seen has \<open>(0, 0)\<close>.
\<close>

type_synonym store = "string \<Rightarrow> nat \<times> nat"

definition empty_store :: store where
  "empty_store = (\<lambda>k. (0, 0))"

definition increment :: "store \<Rightarrow> string \<Rightarrow> nat \<Rightarrow> nat \<times> store" where
  "increment st k now =
     (let (hits, resetTime) = st k;
          entry = (if now < resetTime then (hits + 1, resetTime) else (1, now + windowMs))
      in (fst entry, st(k := entry)))"

text \<open>
  Modelled from the spec: the decision of the limiter middleware. A request passes when the
  client's hits, this one counted, are within the quota.
\<close>

definition limiter :: "store \<Rightarrow> string \<Rightarrow> nat \<Rightarrow> bool \<times> store" where
  "limiter st k now = (let (hits, st') = increment st k now in (hits \<le> max_hits, st'))"

text \<open>
  Modelled from the spec: the answer of the limiter, a package that is not among the
  repository's sources, to a request beyond the quota; the spec says only that the request
  is rejected. \<^verbatim>\<open>proxy-server.js\<close> sets
  \<^verbatim>\<open>message: 'Too many requests, please try again later.'\<close>; the server file sets no
  message and the package answers with the same text. The package sends a string message as
  the text of a 429 response.
\<close>

definition too_many_requests :: http_response where
  "too_many_requests =
     \<lparr> status = 429, body = TextBody ''Too many requests, please try again later.'' \<rparr>"

section \<open>The middleware chain of \<^verbatim>\<open>POST /analyze\<close>\<close>

text \<open>
  The error-handling middleware registered last, \<^verbatim>\<open>app.use((err, req, res, next) => ...)\<close>,
  applied to the message of the error it receives.
\<close>

definition server_error_middleware :: "string \<Rightarrow> http_response" where
  "server_error_middleware msg = res_json 500 (JObj [(''error'', JStr ''Internal server error'')])"

definition proxy_error_middleware :: "env \<Rightarrow> string \<Rightarrow> http_response" where
  "proxy_error_middleware e msg =
     res_json 500
       (JObj (object_literal
          [(''error'', Some (JStr ''Internal server error'')),
           (''message'', if NODE_ENV e = Some ''development''
                         then Some (JStr msg) else None)]))"

text \<open>
  How a request ended: stopped by the CORS callback's error, stopped by the limiter, stopped
  by an error of the body-parsing middleware (multer, \<^verbatim>\<open>express.json\<close>), or answered by the
  handler, with the outbound calls the handler issued.
\<close>

datatype outcome =
    Blocked http_response
  | Limited http_response
  | Failed http_response
  | Handled http_response "axios_request list"

fun reply :: "outcome \<Rightarrow> http_response" where
  "reply (Blocked r) = r"
| "reply (Limited r) = r"
| "reply (Failed r) = r"
| "reply (Handled r cs) = r"

fun calls :: "outcome \<Rightarrow> axios_request list" where
  "calls (Handled r cs) = cs"
| "calls out = []"

fun reached_handler :: "outcome \<Rightarrow> bool" where
  "reached_handler (Handled r cs) = True"
| "reached_handler out = False"

text \<open>
  A request on its way through the chain, with the error the body-parsing middleware raises
  for it, if any (\<open>parse_error\<close>).
\<close>

record arriving =
  request :: request
  parse_error :: "string option"

text \<open>
  The server file mounts, in this order: the CORS middleware, whose error goes to the
  error-handling middleware; the limiter on \<^verbatim>\<open>/analyze\<close>; \<^verbatim>\<open>express.json\<close> and multer;
  the handler.
\<close>

definition server_post_analyze ::
  "env \<Rightarrow> (axios_request \<Rightarrow> axios_result) \<Rightarrow> store \<Rightarrow> arriving \<Rightarrow> outcome \<times> store" where
  "server_post_analyze e axios_post st a =
     (case server_cors_origin e (origin (request a)) of
        NotAllowedByCORS \<Rightarrow> (Blocked (server_error_middleware ''Not allowed by CORS''), st)
      | Granted \<Rightarrow>
          (let (pass, st') = limiter st (server_keyGenerator (request a)) (arrival (request a)) in
           if \<not> pass then (Limited too_many_requests, st')
           else (case parse_error a of
                   Some msg \<Rightarrow> (Failed (server_error_middleware msg), st')
                 | None \<Rightarrow>
                     (case server_analyze e axios_post (request a) of
                        (r, cs) \<Rightarrow> (Handled r cs, st')))))"

text \<open>
  \<^verbatim>\<open>proxy-server.js\<close> mounts the CORS middleware with a setting that stops no request, then
  the limiter, multer and the handler.
\<close>

definition proxy_post_analyze ::
  "env \<Rightarrow> (axios_request \<Rightarrow> axios_result) \<Rightarrow> store \<Rightarrow> arriving \<Rightarrow> outcome \<times> store" where
  "proxy_post_analyze e axios_post st a =
     (let (pass, st') = limiter st (proxy_keyGenerator (request a)) (arrival (request a)) in
      if \<not> pass then (Limited too_many_requests, st')
      else (case parse_error a of
              Some msg \<Rightarrow> (Failed (proxy_error_middleware e msg), st')
            | None \<Rightarrow>
                (case proxy_analyze e axios_post (request a) of
                   (r, cs) \<Rightarrow> (Handled r cs, st'))))"

text \<open>Requests served one after the other, the store passed along.\<close>

fun serve ::
  "(store \<Rightarrow> arriving \<Rightarrow> outcome \<times> store) \<Rightarrow> store \<Rightarrow> arriving list \<Rightarrow> outcome list" where
  "serve app st [] = []"
| "serve app st (a # as) = (case app st a of (out, st') \<Rightarrow> out # serve app st' as)"

text \<open>Whether a JSON body has an \<^verbatim>\<open>error\<close> field.\<close>

fun has_error_field :: "body \<Rightarrow> bool" where
  "has_error_field (JsonBody (JObj ps)) = (''error'' \<in> fst ` set ps)"
| "has_error_field b = False"

section \<open>Clients and quotas\<close>

text \<open>
  The requests that count against the quota of the client identifier \<open>k\<close>: in the server
  file those the CORS callback lets through and the key generator maps to \<open>k\<close>; in
  \<^verbatim>\<open>proxy-server.js\<close> those whose \<^verbatim>\<open>req.ip\<close> is \<open>k\<close>.
\<close>

definition server_client :: "env \<Rightarrow> string \<Rightarrow> arriving \<Rightarrow> bool" where
  "server_client e k a =
     (server_cors_origin e (origin (request a)) = Granted \<and> server_keyGenerator (request a) = k)"

definition proxy_client :: "string \<Rightarrow> arriving \<Rightarrow> bool" where
  "proxy_client k a = (proxy_keyGenerator (request a) = k)"

text \<open>How many of the requests selected by \<open>P\<close> reached the handler.\<close>

definition handled_of :: "(arriving \<Rightarrow> bool) \<Rightarrow> arriving list \<Rightarrow> outcome list \<Rightarrow> nat" where
  "handled_of P as outs =
     length (filter (\<lambda>(a, out). P a \<and> reached_handler out) (zip as outs))"

section \<open>Sample inputs\<close>

text \<open>Concrete values on which the properties below are exercised.\<close>

definition sample_file :: uploaded_file where
  "sample_file = \<lparr> buffer = ''PNG-bytes'', originalname = ''chest.png'', mimetype = ''image/png'' \<rparr>"

definition sample_env :: env where
  "sample_env =
     \<lparr> HF_SPACE_URL = Some ''https://space.example'', HF_TOKEN = Some ''hf_secret'',
       NODE_ENV = Some ''production'', ALLOWED_ORIGINS = None \<rparr>"

definition sample_request :: "uploaded_file option \<Rightarrow> field_value option \<Rightarrow> request" where
  "sample_request f ctx =
     \<lparr> origin = None, ip = Some ''203.0.113.7'', forwarded_for = None, arrival = 0,
       req_file = f, context_json = ctx \<rparr>"

definition sample_error :: "string option \<Rightarrow> hf_response option \<Rightarrow> axios_error" where
  "sample_error c r = \<lparr> code = c, response = r, message = ''request failed'' \<rparr>"

definition sample_arriving :: arriving where
  "sample_arriving = \<lparr> request = sample_request (Some sample_file) None, parse_error = None \<rparr>"

section \<open>Properties of the JSON reader and writer\<close>




lemma skip_ws_Cons: "\<not> is_ws c \<Longrightarrow> skip_ws (c # cs) = c # cs"
  by (simp add: skip_ws_def)









section \<open>Properties of the handler\<close>

text \<open>Express sends the document for every status that carries a body.\<close>

lemma res_json_body:
  "\<not> bodiless s \<Longrightarrow> res_json s v = \<lparr> status = s, body = JsonBody v \<rparr>"
  by (simp add: res_json_def)

lemma rejected_status_bodiless: "rejected_status s \<Longrightarrow> bodiless s \<longleftrightarrow> s = 304"
  by (auto simp add: rejected_status_def bodiless_def)

lemma form_outbound_call: "form (outbound_call e fd) = fd"
  by (simp add: outbound_call_def)

text \<open>
  With a file and a form that was built, the handler issues exactly one outbound call,
  whatever comes back; when building the form throws, it issues none.
\<close>

lemma analyze_calls:
  "req_file req = Some f \<Longrightarrow> build_form req f = Inr fd \<Longrightarrow>
     snd (server_analyze e axios_post req) = [outbound_call e fd] \<and>
     snd (proxy_analyze e axios_post req) = [outbound_call e fd]"
  by (simp add: server_analyze_def proxy_analyze_def Let_def split: axios_result.splits)

lemma analyze_throws:
  "req_file req = Some f \<Longrightarrow> build_form req f = Inl m \<Longrightarrow>
     server_analyze e axios_post req = (server_catch (thrown m), []) \<and>
     proxy_analyze e axios_post req = (proxy_catch e (thrown m), [])"
  by (simp add: server_analyze_def proxy_analyze_def)

text \<open>The answer of the handler once it has issued the call \<open>c\<close>.\<close>

lemma server_after_call:
  "server_analyze e axios_post req = (resp, [c]) \<Longrightarrow>
     resp = (case axios_post c of
               Resolved hfResponse \<Rightarrow> res_json 200 (hf_data hfResponse)
             | Rejected err \<Rightarrow> server_catch err)"
  by (auto simp add: server_analyze_def Let_def
        split: option.splits sum.splits axios_result.splits)

lemma proxy_after_call:
  "proxy_analyze e axios_post req = (resp, [c]) \<Longrightarrow>
     resp = (case axios_post c of
               Resolved hfResponse \<Rightarrow> res_json 200 (hf_data hfResponse)
             | Rejected err \<Rightarrow> proxy_catch e err)"
  by (auto simp add: proxy_analyze_def Let_def
        split: option.splits sum.splits axios_result.splits)

text \<open>A request that the chain hands to the handler is answered by the handler.\<close>

lemma server_handled:
  "fst (server_post_analyze e axios_post st a) = Handled resp cs \<Longrightarrow>
     server_analyze e axios_post (request a) = (resp, cs)"
  by (auto simp add: server_post_analyze_def
        split: cors_answer.splits prod.splits if_splits option.splits)

lemma proxy_handled:
  "fst (proxy_post_analyze e axios_post st a) = Handled resp cs \<Longrightarrow>
     proxy_analyze e axios_post (request a) = (resp, cs)"
  by (auto simp add: proxy_post_analyze_def split: prod.splits if_splits option.splits)

lemma after_call:
  "fst (server_post_analyze e axios_post st a) = Handled resp [c] \<Longrightarrow>
     resp = (case axios_post c of
               Resolved hfResponse \<Rightarrow> res_json 200 (hf_data hfResponse)
             | Rejected err \<Rightarrow> server_catch err)"
  "fst (proxy_post_analyze e axios_post st a) = Handled resp [c] \<Longrightarrow>
     resp = (case axios_post c of
               Resolved hfResponse \<Rightarrow> res_json 200 (hf_data hfResponse)
             | Rejected err \<Rightarrow> proxy_catch e err)"
  apply (drule server_handled)
   apply (erule server_after_call)
  apply (drule proxy_handled)
  apply (erule proxy_after_call)
  done




text \<open>
  C3, as stated, fails: a request that provides \<^verbatim>\<open>context_json\<close> as the empty string has
  the field, and the outbound body has no text part for it.
\<close>

theorem text_part_forwarded_counterexample:
  "context_json (sample_request (Some sample_file) (Some (Text ''''))) = Some (Text '''') \<and>
   map form (snd (server_analyze sample_env
                    (stub_upstream (Resolved \<lparr> hf_status = 200, hf_data = JNull \<rparr>))
                    (sample_request (Some sample_file) (Some (Text ''''))))) =
     [[FilePart ''image'' ''PNG-bytes'' ''chest.png'' ''image/png'']] \<and>
   TextPart ''context_json'' '''' \<notin>
     set [FilePart ''image'' ''PNG-bytes'' ''chest.png'' ''image/png'']"
  by (simp add: sample_request_def sample_file_def server_analyze_def outbound_call_def
        build_form_def truthy_def stub_upstream_def)

text \<open>
  A second way in which the claim fails: when the field \<^verbatim>\<open>context_json\<close> is repeated, multer
  hands the handler an array, \<^verbatim>\<open>formData.append\<close> throws, and the request is answered 500
  without any outbound call.
\<close>

lemma repeated_field_not_forwarded:
  "server_analyze sample_env
     (stub_upstream (Resolved \<lparr> hf_status = 200, hf_data = JNull \<rparr>))
     (sample_request (Some sample_file) (Some (Structured ''Arrays are not supported.''))) =
     (\<lparr> status = 500, body = JsonBody (JObj [(''error'', JStr ''Internal server error'')]) \<rparr>,
      [])"
  by (simp add: server_analyze_def build_form_def truthy_def sample_request_def
        server_catch_def thrown_def res_json_def bodiless_def)

text \<open>
  C3, amended. For a request for which multer stored a file, the handler of either variant
  builds the outbound form from what multer hands it. When \<^verbatim>\<open>context_json\<close> is absent or
  the empty string, it issues one outbound call whose form is the single part \<^verbatim>\<open>image\<close>,
  appended with the content \<^verbatim>\<open>req.file.buffer\<close>, the filename \<^verbatim>\<open>req.file.originalname\<close> and
  the content type \<^verbatim>\<open>req.file.mimetype\<close>. When it is a non-empty string, the form is that
  part followed by the text part \<^verbatim>\<open>context_json\<close> with that string. When it is an array or
  an object, no outbound call is issued and the answer is HTTP 500. The statement is about
  the arguments of \<^verbatim>\<open>formData.append\<close>: how multer decoded the inbound filename and content
  type, and how the form-data package encodes them, is not covered.
\<close>

theorem multipart_forwarded:
  assumes has_file: "req_file req = Some f"
  shows
    "(case context_json req of
        None \<Rightarrow>
          snd (server_analyze e axios_post req) =
            [outbound_call e [FilePart ''image'' (buffer f) (originalname f) (mimetype f)]] \<and>
          snd (proxy_analyze e axios_post req) =
            [outbound_call e [FilePart ''image'' (buffer f) (originalname f) (mimetype f)]]
      | Some (Text s) \<Rightarrow>
          snd (server_analyze e axios_post req) =
            [outbound_call e
               (FilePart ''image'' (buffer f) (originalname f) (mimetype f) #
                (if s = '''' then [] else [TextPart ''context_json'' s]))] \<and>
          snd (proxy_analyze e axios_post req) =
            [outbound_call e
               (FilePart ''image'' (buffer f) (originalname f) (mimetype f) #
                (if s = '''' then [] else [TextPart ''context_json'' s]))]
      | Some (Structured m) \<Rightarrow>
          snd (server_analyze e axios_post req) = [] \<and>
          snd (proxy_analyze e axios_post req) = [] \<and>
          status (fst (server_analyze e axios_post req)) = 500 \<and>
          status (fst (proxy_analyze e axios_post req)) = 500) \<and>
     form (outbound_call e fd) = fd"
proof (cases "context_json req")
  case None
  then have "build_form req f =
      Inr [FilePart ''image'' (buffer f) (originalname f) (mimetype f)]"
    by (simp add: build_form_def truthy_def)
  then show ?thesis
    using analyze_calls[OF has_file, of _ e axios_post] None
    by (simp add: form_outbound_call)
next
  case (Some v)
  show ?thesis
  proof (cases v)
    case (Text s)
    have "build_form req f =
        Inr (FilePart ''image'' (buffer f) (originalname f) (mimetype f) #
             (if s = '''' then [] else [TextPart ''context_json'' s]))"
      using Some Text by (simp add: build_form_def truthy_def)
    then show ?thesis
      using analyze_calls[OF has_file, of _ e axios_post] Some Text
      by (simp add: form_outbound_call)
  next
    case (Structured m)
    have "build_form req f = Inl m"
      using Some Structured by (simp add: build_form_def truthy_def)
    then show ?thesis
      using analyze_throws[OF has_file, of m e axios_post] Some Structured
      by (simp add: form_outbound_call server_catch_def proxy_catch_def thrown_def
            res_json_def bodiless_def)
  qed
qed

theorem multipart_forwarded_witness:
  "map form (snd (server_analyze sample_env
                    (stub_upstream (Resolved \<lparr> hf_status = 200, hf_data = JNull \<rparr>))
                    (sample_request (Some sample_file) (Some (Text ''{\"age\":61}''))))) =
     [[FilePart ''image'' ''PNG-bytes'' ''chest.png'' ''image/png'',
       TextPart ''context_json'' ''{\"age\":61}'']] \<and>
   map form (snd (proxy_analyze sample_env
                    (stub_upstream (Resolved \<lparr> hf_status = 200, hf_data = JNull \<rparr>))
                    (sample_request (Some sample_file) None))) =
     [[FilePart ''image'' ''PNG-bytes'' ''chest.png'' ''image/png'']] \<and>
   snd (proxy_analyze sample_env
          (stub_upstream (Resolved \<lparr> hf_status = 200, hf_data = JNull \<rparr>))
          (sample_request (Some sample_file)
             (Some (Structured ''Arrays are not supported.'')))) = []"
  using multipart_forwarded
          [of "sample_request (Some sample_file) (Some (Text ''{\"age\":61}''))" sample_file
              sample_env "stub_upstream (Resolved \<lparr> hf_status = 200, hf_data = JNull \<rparr>)"]
        multipart_forwarded
          [of "sample_request (Some sample_file) None" sample_file sample_env
              "stub_upstream (Resolved \<lparr> hf_status = 200, hf_data = JNull \<rparr>)"]
        multipart_forwarded
          [of "sample_request (Some sample_file)
                 (Some (Structured ''Arrays are not supported.''))" sample_file sample_env
              "stub_upstream (Resolved \<lparr> hf_status = 200, hf_data = JNull \<rparr>)"]
  by (simp add: sample_request_def sample_file_def form_outbound_call)

text \<open>
  C6, as stated, fails: when the upstream answers 304, a status outside 2xx with which axios
  rejects, the gateway answers 304 and Express sends no body with that status, so the
  response carries neither the error marker nor the upstream's payload.
\<close>

theorem upstream_error_counterexample:
  "fst (server_analyze sample_env
          (stub_upstream (Rejected (sample_error None
             (Some \<lparr> hf_status = 304, hf_data = JStr '''' \<rparr>))))
          (sample_request (Some sample_file) None)) =
     \<lparr> status = 304, body = NoBody \<rparr> \<and>
   fst (proxy_analyze sample_env
          (stub_upstream (Rejected (sample_error None
             (Some \<lparr> hf_status = 304, hf_data = JStr '''' \<rparr>))))
          (sample_request (Some sample_file) None)) =
     \<lparr> status = 304, body = NoBody \<rparr> \<and>
   wire NoBody = ''''"
  by (simp add: server_analyze_def proxy_analyze_def build_form_def truthy_def
        sample_request_def stub_upstream_def sample_error_def server_catch_def
        proxy_catch_def res_json_def bodiless_def)

text \<open>
  C6, amended. When the outbound call fails with an error that carries the upstream's
  response (axios does so for a final status outside 2xx, under a code other than
  \<^verbatim>\<open>ECONNABORTED\<close>), both variants answer with the upstream's status; the body is
  \<^verbatim>\<open>{"error":"Analysis service error","details":<upstream body>}\<close>, except for the upstream
  status 304, with which no body is sent. The same holds of every request that the
  middleware chain hands to the handler.
\<close>

theorem upstream_error_forwarded:
  "(req_file req = Some f \<and> build_form req f = Inr fd \<and>
    axios_post (outbound_call e fd) = Rejected err \<and>
    code err \<noteq> Some ''ECONNABORTED'' \<and> response err = Some r \<and>
    rejected_status (hf_status r) \<longrightarrow>
      fst (server_analyze e axios_post req) =
        \<lparr> status = hf_status r,
          body = (if hf_status r = 304 then NoBody
                  else JsonBody (JObj [(''error'', JStr ''Analysis service error''),
                                       (''details'', hf_data r)])) \<rparr> \<and>
      fst (proxy_analyze e axios_post req) =
        \<lparr> status = hf_status r,
          body = (if hf_status r = 304 then NoBody
                  else JsonBody (JObj [(''error'', JStr ''Analysis service error''),
                                       (''details'', hf_data r)])) \<rparr>) \<and>
   ((fst (server_post_analyze e axios_post st a) = Handled resp [c] \<or>
     fst (proxy_post_analyze e axios_post st a) = Handled resp [c]) \<and>
    axios_post c = Rejected err \<and>
    code err \<noteq> Some ''ECONNABORTED'' \<and> response err = Some r \<and>
    rejected_status (hf_status r) \<longrightarrow>
      resp =
        \<lparr> status = hf_status r,
          body = (if hf_status r = 304 then NoBody
                  else JsonBody (JObj [(''error'', JStr ''Analysis service error''),
                                       (''details'', hf_data r)])) \<rparr>)"
proof (intro conjI impI)
  assume h: "req_file req = Some f \<and> build_form req f = Inr fd \<and>
    axios_post (outbound_call e fd) = Rejected err \<and>
    code err \<noteq> Some ''ECONNABORTED'' \<and> response err = Some r \<and>
    rejected_status (hf_status r)"
  then have b: "bodiless (hf_status r) \<longleftrightarrow> hf_status r = 304"
    using rejected_status_bodiless by blast
  show "fst (server_analyze e axios_post req) =
        \<lparr> status = hf_status r,
          body = (if hf_status r = 304 then NoBody
                  else JsonBody (JObj [(''error'', JStr ''Analysis service error''),
                                       (''details'', hf_data r)])) \<rparr>"
    using h b by (simp add: server_analyze_def server_catch_def res_json_def)
  show "fst (proxy_analyze e axios_post req) =
        \<lparr> status = hf_status r,
          body = (if hf_status r = 304 then NoBody
                  else JsonBody (JObj [(''error'', JStr ''Analysis service error''),
                                       (''details'', hf_data r)])) \<rparr>"
    using h b by (simp add: proxy_analyze_def proxy_catch_def res_json_def)
next
  assume h: "(fst (server_post_analyze e axios_post st a) = Handled resp [c] \<or>
     fst (proxy_post_analyze e axios_post st a) = Handled resp [c]) \<and>
    axios_post c = Rejected err \<and>
    code err \<noteq> Some ''ECONNABORTED'' \<and> response err = Some r \<and>
    rejected_status (hf_status r)"
  then have b: "bodiless (hf_status r) \<longleftrightarrow> hf_status r = 304"
    using rejected_status_bodiless by blast
  show "resp =
        \<lparr> status = hf_status r,
          body = (if hf_status r = 304 then NoBody
                  else JsonBody (JObj [(''error'', JStr ''Analysis service error''),
                                       (''details'', hf_data r)])) \<rparr>"
    using h b after_call(1)[of e axios_post st a resp c]
      after_call(2)[of e axios_post st a resp c]
    by (auto simp add: server_catch_def proxy_catch_def res_json_def)
qed

theorem upstream_error_forwarded_witness:
  "fst (server_analyze sample_env
          (stub_upstream (Rejected (sample_error (Some ''ERR_BAD_REQUEST'')
             (Some \<lparr> hf_status = 422, hf_data = JObj [(''detail'', JStr ''bad image'')] \<rparr>))))
          (sample_request (Some sample_file) None)) =
     \<lparr> status = 422,
       body = JsonBody (JObj [(''error'', JStr ''Analysis service error''),
                              (''details'', JObj [(''detail'', JStr ''bad image'')])]) \<rparr> \<and>
   fst (proxy_analyze sample_env
          (stub_upstream (Rejected (sample_error (Some ''ERR_BAD_REQUEST'')
             (Some \<lparr> hf_status = 422, hf_data = JObj [(''detail'', JStr ''bad image'')] \<rparr>))))
          (sample_request (Some sample_file) None)) =
     \<lparr> status = 422,
       body = JsonBody (JObj [(''error'', JStr ''Analysis service error''),
                              (''details'', JObj [(''detail'', JStr ''bad image'')])]) \<rparr>"
proof -
  let ?r = "\<lparr> hf_status = 422, hf_data = JObj [(''detail'', JStr ''bad image'')] \<rparr>"
  let ?fd = "[FilePart ''image'' (buffer sample_file) (originalname sample_file)
                (mimetype sample_file)]"
  have built: "build_form (sample_request (Some sample_file) None) sample_file = Inr ?fd"
    by (simp add: build_form_def truthy_def sample_request_def)
  show ?thesis
    using upstream_error_forwarded
            [of "sample_request (Some sample_file) None" sample_file ?fd
                "stub_upstream (Rejected (sample_error (Some ''ERR_BAD_REQUEST'') (Some ?r)))"
                sample_env "sample_error (Some ''ERR_BAD_REQUEST'') (Some ?r)" ?r]
      built
    by (simp add: sample_request_def stub_upstream_def sample_error_def rejected_status_def)
qed

text \<open>
  C7. The outbound call is issued with a timeout of 120000 milliseconds. When it fails with
  the code \<^verbatim>\<open>ECONNABORTED\<close>, under which axios reports that the timeout ran out, the answer
  is HTTP 504 with a fixed message: \<^verbatim>\<open>Analysis timeout\<close> in the server file,
  \<^verbatim>\<open>Analysis timeout - the AI model took too long to respond\<close> in \<^verbatim>\<open>proxy-server.js\<close>.
  The outbound call is the one made with the form \<open>fd\<close> that the handler built.
\<close>

theorem timeout_gives_504:
  "req_file req = Some f \<Longrightarrow> build_form req f = Inr fd \<Longrightarrow>
   axios_post (outbound_call e fd) = Rejected err \<Longrightarrow>
   code err = Some ''ECONNABORTED'' \<Longrightarrow>
     timeout (outbound_call e fd) = 120000 \<and>
     server_analyze e axios_post req =
       (\<lparr> status = 504, body = JsonBody (JObj [(''error'', JStr ''Analysis timeout'')]) \<rparr>,
        [outbound_call e fd]) \<and>
     proxy_analyze e axios_post req =
       (\<lparr> status = 504,
          body = JsonBody (JObj [(''error'',
                   JStr ''Analysis timeout - the AI model took too long to respond'')]) \<rparr>,
        [outbound_call e fd])"
  by (simp add: server_analyze_def proxy_analyze_def server_catch_def proxy_catch_def
        res_json_def bodiless_def) (simp add: outbound_call_def)

theorem timeout_gives_504_witness:
  "fst (server_analyze sample_env
          (stub_upstream (Rejected (sample_error (Some ''ECONNABORTED'') None)))
          (sample_request (Some sample_file) None)) =
     \<lparr> status = 504, body = JsonBody (JObj [(''error'', JStr ''Analysis timeout'')]) \<rparr> \<and>
   fst (proxy_analyze sample_env
          (stub_upstream (Rejected (sample_error (Some ''ECONNABORTED'') None)))
          (sample_request (Some sample_file) None)) =
     \<lparr> status = 504,
       body = JsonBody (JObj [(''error'',
                JStr ''Analysis timeout - the AI model took too long to respond'')]) \<rparr>"
proof -
  let ?fd = "[FilePart ''image'' (buffer sample_file) (originalname sample_file)
                (mimetype sample_file)]"
  have built: "build_form (sample_request (Some sample_file) None) sample_file = Inr ?fd"
    by (simp add: build_form_def truthy_def sample_request_def)
  show ?thesis
    using timeout_gives_504
            [of "sample_request (Some sample_file) None" sample_file ?fd
                "stub_upstream (Rejected (sample_error (Some ''ECONNABORTED'') None))"
                sample_env "sample_error (Some ''ECONNABORTED'') None"]
      built
    by (simp add: sample_request_def stub_upstream_def sample_error_def)
qed

text \<open>
  C8, as stated, fails: in \<^verbatim>\<open>proxy-server.js\<close> with \<^verbatim>\<open>NODE_ENV\<close> set to \<^verbatim>\<open>development\<close> the
  body of the 500 is not generic, it carries the message of the transport error.
\<close>

theorem generic_body_counterexample:
  "fst (proxy_analyze (sample_env \<lparr> NODE_ENV := Some ''development'' \<rparr>)
          (stub_upstream (Rejected
             \<lparr> code = Some ''ECONNREFUSED'', response = None,
               message = ''connect ECONNREFUSED 127.0.0.1:7860'' \<rparr>))
          (sample_request (Some sample_file) None)) =
     \<lparr> status = 500,
       body = JsonBody (JObj [(''error'', JStr ''Internal server error''),
                              (''message'', JStr ''connect ECONNREFUSED 127.0.0.1:7860'')]) \<rparr>"
  by (simp add: proxy_analyze_def build_form_def truthy_def sample_request_def
        stub_upstream_def proxy_catch_def sample_env_def res_json_def bodiless_def)

text \<open>
  C8, amended. When the outbound call fails with an error that is neither the timeout code
  nor carries an upstream response (DNS failure, connection refused), the answer is HTTP
  500 with the error text \<^verbatim>\<open>Internal server error\<close>. The body is exactly
  \<^verbatim>\<open>{"error":"Internal server error"}\<close> in the server file, and in \<^verbatim>\<open>proxy-server.js\<close>
  unless \<^verbatim>\<open>NODE_ENV\<close> is \<^verbatim>\<open>development\<close>: then \<^verbatim>\<open>proxy-server.js\<close> adds the error's own
  message as \<^verbatim>\<open>message\<close>. The same holds of every request that the middleware chain hands
  to the handler.
\<close>

theorem transport_failure_gives_500:
  "(req_file req = Some f \<and> build_form req f = Inr fd \<and>
    axios_post (outbound_call e fd) = Rejected err \<and>
    code err \<noteq> Some ''ECONNABORTED'' \<and> response err = None \<longrightarrow>
      fst (server_analyze e axios_post req) =
        \<lparr> status = 500, body = JsonBody (JObj [(''error'', JStr ''Internal server error'')]) \<rparr> \<and>
      fst (proxy_analyze e axios_post req) =
        \<lparr> status = 500,
          body = JsonBody (JObj ((''error'', JStr ''Internal server error'') #
                   (if NODE_ENV e = Some ''development''
                    then [(''message'', JStr (message err))] else []))) \<rparr>) \<and>
   (axios_post c = Rejected err \<and>
    code err \<noteq> Some ''ECONNABORTED'' \<and> response err = None \<longrightarrow>
      (fst (server_post_analyze e axios_post st a) = Handled resp [c] \<longrightarrow>
         resp = \<lparr> status = 500,
                  body = JsonBody (JObj [(''error'', JStr ''Internal server error'')]) \<rparr>) \<and>
      (fst (proxy_post_analyze e axios_post st a) = Handled resp [c] \<longrightarrow>
         resp = \<lparr> status = 500,
                  body = JsonBody (JObj ((''error'', JStr ''Internal server error'') #
                           (if NODE_ENV e = Some ''development''
                            then [(''message'', JStr (message err))] else []))) \<rparr>))"
proof (intro conjI impI)
  assume h: "req_file req = Some f \<and> build_form req f = Inr fd \<and>
    axios_post (outbound_call e fd) = Rejected err \<and>
    code err \<noteq> Some ''ECONNABORTED'' \<and> response err = None"
  show "fst (server_analyze e axios_post req) =
        \<lparr> status = 500, body = JsonBody (JObj [(''error'', JStr ''Internal server error'')]) \<rparr>"
    using h by (simp add: server_analyze_def server_catch_def res_json_def bodiless_def)
  show "fst (proxy_analyze e axios_post req) =
        \<lparr> status = 500,
          body = JsonBody (JObj ((''error'', JStr ''Internal server error'') #
                   (if NODE_ENV e = Some ''development''
                    then [(''message'', JStr (message err))] else []))) \<rparr>"
    using h by (simp add: proxy_analyze_def proxy_catch_def res_json_def bodiless_def)
next
  assume h: "axios_post c = Rejected err \<and>
    code err \<noteq> Some ''ECONNABORTED'' \<and> response err = None"
    and s: "fst (server_post_analyze e axios_post st a) = Handled resp [c]"
  show "resp = \<lparr> status = 500,
                  body = JsonBody (JObj [(''error'', JStr ''Internal server error'')]) \<rparr>"
    using h after_call(1)[OF s] by (simp add: server_catch_def res_json_def bodiless_def)
next
  assume h: "axios_post c = Rejected err \<and>
    code err \<noteq> Some ''ECONNABORTED'' \<and> response err = None"
    and p: "fst (proxy_post_analyze e axios_post st a) = Handled resp [c]"
  show "resp = \<lparr> status = 500,
                  body = JsonBody (JObj ((''error'', JStr ''Internal server error'') #
                           (if NODE_ENV e = Some ''development''
                            then [(''message'', JStr (message err))] else []))) \<rparr>"
    using h after_call(2)[OF p] by (simp add: proxy_catch_def res_json_def bodiless_def)
qed

theorem transport_failure_gives_500_witness:
  "fst (server_analyze sample_env
          (stub_upstream (Rejected (sample_error (Some ''ECONNREFUSED'') None)))
          (sample_request (Some sample_file) None)) =
     \<lparr> status = 500, body = JsonBody (JObj [(''error'', JStr ''Internal server error'')]) \<rparr> \<and>
   fst (proxy_analyze sample_env
          (stub_upstream (Rejected (sample_error (Some ''ECONNREFUSED'') None)))
          (sample_request (Some sample_file) None)) =
     \<lparr> status = 500, body = JsonBody (JObj [(''error'', JStr ''Internal server error'')]) \<rparr> \<and>
   fst (proxy_analyze (sample_env \<lparr> NODE_ENV := Some ''development'' \<rparr>)
          (stub_upstream (Rejected (sample_error (Some ''ECONNREFUSED'') None)))
          (sample_request (Some sample_file) None)) =
     \<lparr> status = 500,
       body = JsonBody (JObj [(''error'', JStr ''Internal server error''),
                              (''message'', JStr ''request failed'')]) \<rparr>"
proof -
  let ?fd = "[FilePart ''image'' (buffer sample_file) (originalname sample_file)
                (mimetype sample_file)]"
  let ?up = "stub_upstream (Rejected (sample_error (Some ''ECONNREFUSED'') None))"
  have built: "build_form (sample_request (Some sample_file) None) sample_file = Inr ?fd"
    by (simp add: build_form_def truthy_def sample_request_def)
  show ?thesis
    using transport_failure_gives_500
            [of "sample_request (Some sample_file) None" sample_file ?fd ?up sample_env
                "sample_error (Some ''ECONNREFUSED'') None"]
          transport_failure_gives_500
            [of "sample_request (Some sample_file) None" sample_file ?fd ?up
                "sample_env \<lparr> NODE_ENV := Some ''development'' \<rparr>"
                "sample_error (Some ''ECONNREFUSED'') None"]
      built
    by (simp add: sample_request_def stub_upstream_def sample_error_def sample_env_def)
qed

text \<open>
  C10. When \<^verbatim>\<open>context_json\<close> is the empty string, the outbound multipart body consists of
  the file part alone: the field is appended only when its value is truthy.
\<close>

theorem empty_context_not_forwarded:
  "req_file req = Some f \<Longrightarrow> context_json req = Some (Text '''') \<Longrightarrow>
     build_form req f = Inr [FilePart ''image'' (buffer f) (originalname f) (mimetype f)] \<and>
     form (outbound_call e [FilePart ''image'' (buffer f) (originalname f) (mimetype f)]) =
       [FilePart ''image'' (buffer f) (originalname f) (mimetype f)] \<and>
     snd (server_analyze e axios_post req) =
       [outbound_call e [FilePart ''image'' (buffer f) (originalname f) (mimetype f)]] \<and>
     snd (proxy_analyze e axios_post req) =
       [outbound_call e [FilePart ''image'' (buffer f) (originalname f) (mimetype f)]]"
proof -
  assume f: "req_file req = Some f" and c: "context_json req = Some (Text '''')"
  have built: "build_form req f =
      Inr [FilePart ''image'' (buffer f) (originalname f) (mimetype f)]"
    using c by (simp add: build_form_def truthy_def)
  show ?thesis
    using analyze_calls[OF f built, of e axios_post] built
    by (simp add: form_outbound_call)
qed

theorem empty_context_not_forwarded_witness:
  "map form (snd (server_analyze sample_env
                    (stub_upstream (Resolved \<lparr> hf_status = 200, hf_data = JNull \<rparr>))
                    (sample_request (Some sample_file) (Some (Text ''''))))) =
     [[FilePart ''image'' ''PNG-bytes'' ''chest.png'' ''image/png'']] \<and>
   map form (snd (proxy_analyze sample_env
                    (stub_upstream (Resolved \<lparr> hf_status = 200, hf_data = JNull \<rparr>))
                    (sample_request (Some sample_file) (Some (Text ''''))))) =
     [[FilePart ''image'' ''PNG-bytes'' ''chest.png'' ''image/png'']]"
  using empty_context_not_forwarded
          [of "sample_request (Some sample_file) (Some (Text ''''))" sample_file sample_env
              "stub_upstream (Resolved \<lparr> hf_status = 200, hf_data = JNull \<rparr>)"]
  by (simp add: sample_request_def sample_file_def form_outbound_call)

section \<open>Properties of the CORS layer\<close>

text \<open>
  Splitting yields at least one piece, no piece holds the separator, and nothing is trimmed:
  an origin matches an element of \<^verbatim>\<open>ALLOWED_ORIGINS\<close> only character by character.
\<close>

lemma split_on_not_empty: "split_on c xs \<noteq> []"
  by (induction xs) (auto split: list.splits)

lemma split_on_pieces: "p \<in> set (split_on c xs) \<Longrightarrow> c \<notin> set p"
  by (induction xs arbitrary: p) (auto split: list.splits if_splits)

lemma split_on_example:
  "split_on CHR '','' ''https://a.example,https://b.example'' =
     [''https://a.example'', ''https://b.example'']"
  by simp

lemma split_on_keeps_spaces: "split_on CHR '','' ''a, b'' = [''a'', '' b'']"
  by simp

text \<open>
  C5, as stated, fails in both files. Outside production the server file grants an origin
  that is on neither list; \<^verbatim>\<open>proxy-server.js\<close>, whose list comes from \<^verbatim>\<open>ALLOWED_ORIGINS\<close>
  alone, grants every origin when that variable is not set.
\<close>

theorem origin_allow_list_counterexample:
  "''http://evil.example'' \<notin>
     set (allowedOrigins @ envOrigins (sample_env \<lparr> NODE_ENV := None \<rparr>)) \<and>
   server_cors_origin (sample_env \<lparr> NODE_ENV := None \<rparr>) (Some ''http://evil.example'') =
     Granted \<and>
   grants (server_cors (sample_env \<lparr> NODE_ENV := None \<rparr>) (Some ''http://evil.example''))
     ''http://evil.example'' \<and>
   ALLOWED_ORIGINS sample_env = None \<and>
   grants (proxy_cors sample_env (Some ''http://evil.example'')) ''http://evil.example''"
  by (simp add: server_cors_origin_def server_cors_def proxy_cors_def proxy_cors_origin_def
        grants_def reflect_def sample_env_def allowedOrigins_def envOrigins_def)

text \<open>
  C5, amended. For a request that carries a non-empty \<^verbatim>\<open>Origin\<close> header: in the server
  file, cross-origin access is granted if and only if the origin is on the list in the code
  or is an element of \<^verbatim>\<open>ALLOWED_ORIGINS\<close> split at commas (exact string match), or
  \<^verbatim>\<open>NODE_ENV\<close> is not \<^verbatim>\<open>production\<close>, in which case every origin is granted; an origin that
  is not granted is stopped with the callback's error. In \<^verbatim>\<open>proxy-server.js\<close>, which has no
  list in its code, access is granted if and only if the origin is an element of
  \<^verbatim>\<open>ALLOWED_ORIGINS\<close> split at commas, or \<^verbatim>\<open>ALLOWED_ORIGINS\<close> is not set, in which case every
  origin is granted. A request with no \<^verbatim>\<open>Origin\<close> header is never stopped, in either file;
  \<^verbatim>\<open>proxy-server.js\<close> stops no request at all.
\<close>

theorem cors_grants:
  "(s \<noteq> '''' \<longrightarrow>
      (grants (server_cors e (Some s)) s \<longleftrightarrow>
         s \<in> set allowedOrigins \<or> s \<in> set (envOrigins e) \<or>
         NODE_ENV e \<noteq> Some ''production'')) \<and>
   (s \<noteq> '''' \<longrightarrow>
      (server_cors e (Some s) = Stopped \<longleftrightarrow> \<not> grants (server_cors e (Some s)) s)) \<and>
   (s \<noteq> '''' \<longrightarrow>
      (grants (proxy_cors e (Some s)) s \<longleftrightarrow>
         ALLOWED_ORIGINS e = None \<or>
         (\<exists>l. ALLOWED_ORIGINS e = Some l \<and> s \<in> set (split_on CHR '','' l)))) \<and>
   server_cors e None \<noteq> Stopped \<and>
   proxy_cors e orig \<noteq> Stopped"
  by (auto simp add: server_cors_def server_cors_origin_def proxy_cors_def
        proxy_cors_origin_def grants_def reflect_def
        split: option.splits cors_answer.splits if_splits)

theorem cors_grants_witness:
  "grants (server_cors sample_env (Some ''https://chestexpertprime.vercel.app''))
     ''https://chestexpertprime.vercel.app'' \<and>
   server_cors sample_env (Some ''http://evil.example'') = Stopped \<and>
   grants
     (server_cors
        (sample_env \<lparr> ALLOWED_ORIGINS := Some ''https://a.example,https://b.example'' \<rparr>)
        (Some ''https://b.example''))
     ''https://b.example'' \<and>
   \<not> grants
     (proxy_cors
        (sample_env \<lparr> ALLOWED_ORIGINS := Some ''https://a.example,https://b.example'' \<rparr>)
        (Some ''http://evil.example''))
     ''http://evil.example''"
  using cors_grants [of "''https://chestexpertprime.vercel.app''" sample_env]
        cors_grants [of "''http://evil.example''" sample_env]
        cors_grants
          [of "''https://b.example''"
              "sample_env \<lparr> ALLOWED_ORIGINS := Some ''https://a.example,https://b.example'' \<rparr>"]
        cors_grants
          [of "''http://evil.example''"
              "sample_env \<lparr> ALLOWED_ORIGINS := Some ''https://a.example,https://b.example'' \<rparr>"]
  by (simp add: sample_env_def allowedOrigins_def envOrigins_def)

section \<open>Properties of the limiter and of the chain\<close>

text \<open>
  C2, as stated, fails: a request without the file is not always answered 400. When the
  upload holds a file under another field name, multer raises \<^verbatim>\<open>Unexpected field\<close>, the
  handler does not run, and the error-handling middleware answers 500.
\<close>

theorem missing_file_counterexample:
  "req_file (request \<lparr> request = sample_request None None,
                       parse_error = Some ''Unexpected field'' \<rparr>) = None \<and>
   reply (fst (server_post_analyze sample_env
                 (stub_upstream (Resolved \<lparr> hf_status = 200, hf_data = JNull \<rparr>))
                 empty_store
                 \<lparr> request = sample_request None None,
                   parse_error = Some ''Unexpected field'' \<rparr>)) =
     \<lparr> status = 500, body = JsonBody (JObj [(''error'', JStr ''Internal server error'')]) \<rparr> \<and>
   reply (fst (proxy_post_analyze sample_env
                 (stub_upstream (Resolved \<lparr> hf_status = 200, hf_data = JNull \<rparr>))
                 empty_store
                 \<lparr> request = sample_request None None,
                   parse_error = Some ''Unexpected field'' \<rparr>)) =
     \<lparr> status = 500, body = JsonBody (JObj [(''error'', JStr ''Internal server error'')]) \<rparr>"
  by (simp add: server_post_analyze_def proxy_post_analyze_def server_cors_origin_def
        sample_request_def limiter_def increment_def empty_store_def max_hits_def
        server_error_middleware_def proxy_error_middleware_def sample_env_def
        res_json_def bodiless_def)

text \<open>
  C2, amended. For every \<^verbatim>\<open>POST\<close> request to \<^verbatim>\<open>/analyze\<close> in which the file is absent, no
  outbound call to the upstream is made, in either variant. The request reaches the handler
  exactly when the CORS callback lets it through (server file), the limiter lets it
  through and the body-parsing middleware raises no error; it is then answered HTTP 400
  with the JSON body \<^verbatim>\<open>{"error":"No image file provided"}\<close>. Otherwise the layer that
  stopped it answers: the limiter with 429, the error-handling middleware with 500.
\<close>

theorem missing_file_rejected:
  "(req_file (request a) = None \<and>
    (out = fst (server_post_analyze e axios_post st a) \<or>
     out = fst (proxy_post_analyze e axios_post st a)) \<longrightarrow>
      calls out = [] \<and>
      (reached_handler out \<longrightarrow>
         out = Handled \<lparr> status = 400,
                         body = JsonBody (JObj [(''error'', JStr ''No image file provided'')]) \<rparr>
                 []) \<and>
      (\<not> reached_handler out \<longrightarrow> status (reply out) = 429 \<or> status (reply out) = 500)) \<and>
   (reached_handler (fst (server_post_analyze e axios_post st a)) \<longleftrightarrow>
      server_cors_origin e (origin (request a)) = Granted \<and>
      fst (limiter st (server_keyGenerator (request a)) (arrival (request a))) \<and>
      parse_error a = None) \<and>
   (reached_handler (fst (proxy_post_analyze e axios_post st a)) \<longleftrightarrow>
      fst (limiter st (proxy_keyGenerator (request a)) (arrival (request a))) \<and>
      parse_error a = None)"
proof (intro conjI impI)
  assume h: "req_file (request a) = None \<and>
    (out = fst (server_post_analyze e axios_post st a) \<or>
     out = fst (proxy_post_analyze e axios_post st a))"
  have no_file:
    "server_analyze e axios_post (request a) = (no_file_response, [])"
    "proxy_analyze e axios_post (request a) = (no_file_response, [])"
    using h by (simp_all add: server_analyze_def proxy_analyze_def)
  have shape: "out = Handled no_file_response [] \<or> out = Limited too_many_requests \<or>
      (\<exists>m. out = Failed (server_error_middleware m)) \<or>
      (\<exists>m. out = Failed (proxy_error_middleware e m)) \<or>
      (\<exists>m. out = Blocked (server_error_middleware m))"
    using h no_file
    by (auto simp add: server_post_analyze_def proxy_post_analyze_def
          split: cors_answer.splits prod.splits option.splits if_splits)
  show "calls out = []" using shape by auto
  show "out = Handled \<lparr> status = 400,
                         body = JsonBody (JObj [(''error'', JStr ''No image file provided'')]) \<rparr>
                 []"
    if "reached_handler out"
    using shape that by (auto simp add: no_file_response_def res_json_def bodiless_def)
  show "status (reply out) = 429 \<or> status (reply out) = 500" if "\<not> reached_handler out"
    using shape that
    by (auto simp add: too_many_requests_def server_error_middleware_def
          proxy_error_middleware_def res_json_def)
next
  show "reached_handler (fst (server_post_analyze e axios_post st a)) \<longleftrightarrow>
      server_cors_origin e (origin (request a)) = Granted \<and>
      fst (limiter st (server_keyGenerator (request a)) (arrival (request a))) \<and>
      parse_error a = None"
    by (auto simp add: server_post_analyze_def
          split: cors_answer.splits prod.splits option.splits)
next
  show "reached_handler (fst (proxy_post_analyze e axios_post st a)) \<longleftrightarrow>
      fst (limiter st (proxy_keyGenerator (request a)) (arrival (request a))) \<and>
      parse_error a = None"
    by (auto simp add: proxy_post_analyze_def split: prod.splits option.splits)
qed

theorem missing_file_rejected_witness:
  "fst (server_post_analyze sample_env
          (stub_upstream (Resolved \<lparr> hf_status = 200, hf_data = JNull \<rparr>))
          empty_store \<lparr> request = sample_request None None, parse_error = None \<rparr>) =
     Handled \<lparr> status = 400,
               body = JsonBody (JObj [(''error'', JStr ''No image file provided'')]) \<rparr> [] \<and>
   fst (proxy_post_analyze sample_env
          (stub_upstream (Resolved \<lparr> hf_status = 200, hf_data = JNull \<rparr>))
          empty_store \<lparr> request = sample_request None None, parse_error = None \<rparr>) =
     Handled \<lparr> status = 400,
               body = JsonBody (JObj [(''error'', JStr ''No image file provided'')]) \<rparr> []"
proof -
  let ?up = "stub_upstream (Resolved \<lparr> hf_status = 200, hf_data = JNull \<rparr>)"
  let ?a = "\<lparr> request = sample_request None None, parse_error = None \<rparr>"
  have lets: "server_cors_origin sample_env (origin (request ?a)) = Granted"
    "fst (limiter empty_store (server_keyGenerator (request ?a)) (arrival (request ?a)))"
    "fst (limiter empty_store (proxy_keyGenerator (request ?a)) (arrival (request ?a)))"
    "parse_error ?a = None" "req_file (request ?a) = None"
    by (simp_all add: server_cors_origin_def sample_request_def limiter_def increment_def
          empty_store_def max_hits_def)
  show ?thesis
    using missing_file_rejected
            [of ?a "fst (server_post_analyze sample_env ?up empty_store ?a)" sample_env ?up
                empty_store]
          missing_file_rejected
            [of ?a "fst (proxy_post_analyze sample_env ?up empty_store ?a)" sample_env ?up
                empty_store]
      lets
    by simp
qed

text \<open>The limiter inside a window, at its end, and on another client's key.\<close>

lemma limiter_same:
  "st k = (h, reset) \<Longrightarrow> now < reset \<Longrightarrow>
     limiter st k now = (h + 1 \<le> max_hits, st(k := (h + 1, reset)))"
  by (simp add: limiter_def increment_def)

lemma limiter_new:
  "st k = (h, reset) \<Longrightarrow> reset \<le> now \<Longrightarrow>
     limiter st k now = (True, st(k := (1, now + windowMs)))"
  by (simp add: limiter_def increment_def max_hits_def)

lemma limiter_other:
  "k' \<noteq> k \<Longrightarrow> snd (limiter st k' now) k = st k"
  by (simp add: limiter_def increment_def Let_def split: prod.splits)

lemma server_client_step:
  "server_client e k a \<Longrightarrow>
     snd (server_post_analyze e axios_post st a) = snd (limiter st k (arrival (request a))) \<and>
     (\<not> fst (limiter st k (arrival (request a))) \<longrightarrow>
        fst (server_post_analyze e axios_post st a) = Limited too_many_requests)"
  by (auto simp add: server_client_def server_post_analyze_def split: prod.splits option.splits)

lemma server_other_step:
  "\<not> server_client e k a \<Longrightarrow> snd (server_post_analyze e axios_post st a) k = st k"
  using limiter_other[of "server_keyGenerator (request a)" k st "arrival (request a)"]
  by (auto simp add: server_client_def server_post_analyze_def
        split: prod.splits option.splits cors_answer.splits)

lemma proxy_client_step:
  "proxy_client k a \<Longrightarrow>
     snd (proxy_post_analyze e axios_post st a) = snd (limiter st k (arrival (request a))) \<and>
     (\<not> fst (limiter st k (arrival (request a))) \<longrightarrow>
        fst (proxy_post_analyze e axios_post st a) = Limited too_many_requests)"
  by (auto simp add: proxy_client_def proxy_post_analyze_def split: prod.splits option.splits)

lemma proxy_other_step:
  "\<not> proxy_client k a \<Longrightarrow> snd (proxy_post_analyze e axios_post st a) k = st k"
  using limiter_other[of "proxy_keyGenerator (request a)" k st "arrival (request a)"]
  by (auto simp add: proxy_client_def proxy_post_analyze_def split: prod.splits option.splits)

lemma handled_of_Cons:
  "handled_of P (a # as) (out # outs) =
     (if P a \<and> reached_handler out then 1 else 0) + handled_of P as outs"
  by (simp add: handled_of_def)

lemma window_handled:
  assumes client: "\<And>st a. P a \<Longrightarrow>
             snd (app st a) = snd (limiter st k (arrival (request a))) \<and>
             (\<not> fst (limiter st k (arrival (request a))) \<longrightarrow>
                fst (app st a) = Limited too_many_requests)"
      and other: "\<And>st a. \<not> P a \<Longrightarrow> snd (app st a) k = st k"
  shows "st k = (h, reset) \<Longrightarrow> \<forall>a\<in>set as. P a \<longrightarrow> arrival (request a) < reset \<Longrightarrow>
           handled_of P as (serve app st as) \<le> max_hits - h"
proof (induction as arbitrary: st h)
  case Nil
  then show ?case by (simp add: handled_of_def)
next
  case (Cons a as)
  obtain out st' where step: "app st a = (out, st')" by (cases "app st a")
  show ?case
  proof (cases "P a")
    case True
    have now: "arrival (request a) < reset" using Cons.prems True by simp
    have lim: "limiter st k (arrival (request a)) = (h + 1 \<le> max_hits, st(k := (h + 1, reset)))"
      using limiter_same[of st k h reset, OF Cons.prems(1) now] .
    have st': "st' k = (h + 1, reset)"
      using client[OF True, of st] step lim by simp
    have rest: "handled_of P as (serve app st' as) \<le> max_hits - (h + 1)"
      using Cons.IH[of st' "h + 1", OF st'] Cons.prems(2) by simp
    have first: "reached_handler out \<Longrightarrow> h + 1 \<le> max_hits"
      using client[OF True, of st] step lim by (cases "h + 1 \<le> max_hits") auto
    show ?thesis
      using rest first step by (auto simp add: handled_of_Cons)
  next
    case False
    have st': "st' k = (h, reset)"
      using other[OF False, of st] step Cons.prems(1) by simp
    have rest: "handled_of P as (serve app st' as) \<le> max_hits - h"
      using Cons.IH[of st' h, OF st'] Cons.prems(2) by simp
    show ?thesis
      using rest False step by (simp add: handled_of_Cons)
  qed
qed

lemma window_rejects:
  assumes client: "\<And>st a. P a \<Longrightarrow>
             snd (app st a) = snd (limiter st k (arrival (request a))) \<and>
             (\<not> fst (limiter st k (arrival (request a))) \<longrightarrow>
                fst (app st a) = Limited too_many_requests)"
      and other: "\<And>st a. \<not> P a \<Longrightarrow> snd (app st a) k = st k"
  shows "st k = (h, reset) \<Longrightarrow> \<forall>a\<in>set as. P a \<longrightarrow> arrival (request a) < reset \<Longrightarrow>
           i < length as \<Longrightarrow> P (as ! i) \<Longrightarrow>
           max_hits \<le> h + length (filter P (take i as)) \<Longrightarrow>
           serve app st as ! i = Limited too_many_requests"
proof (induction as arbitrary: st h i)
  case Nil
  then show ?case by simp
next
  case (Cons a as)
  obtain out st' where step: "app st a = (out, st')" by (cases "app st a")
  show ?case
  proof (cases i)
    case 0
    have Pa: "P a" using Cons.prems(4) 0 by simp
    have now: "arrival (request a) < reset" using Cons.prems(2) Pa by simp
    have full: "max_hits \<le> h" using Cons.prems(5) 0 by simp
    have lim: "limiter st k (arrival (request a)) = (h + 1 \<le> max_hits, st(k := (h + 1, reset)))"
      using limiter_same[of st k h reset, OF Cons.prems(1) now] .
    have "out = Limited too_many_requests"
      using client[OF Pa, of st] step lim full by simp
    then show ?thesis using 0 step by simp
  next
    case (Suc j)
    have j: "j < length as" using Cons.prems(3) Suc by simp
    have Pj: "P (as ! j)" using Cons.prems(4) Suc by simp
    show ?thesis
    proof (cases "P a")
      case True
      have now: "arrival (request a) < reset" using Cons.prems(2) True by simp
      have lim: "limiter st k (arrival (request a)) = (h + 1 \<le> max_hits, st(k := (h + 1, reset)))"
        using limiter_same[of st k h reset, OF Cons.prems(1) now] .
      have st': "st' k = (h + 1, reset)"
        using client[OF True, of st] step lim by simp
      have cnt: "max_hits \<le> (h + 1) + length (filter P (take j as))"
        using Cons.prems(5) Suc True by simp
      have "serve app st' as ! j = Limited too_many_requests"
        using Cons.IH[of st' "h + 1" j, OF st' _ j Pj cnt] Cons.prems(2) by simp
      then show ?thesis using Suc step by simp
    next
      case False
      have st': "st' k = (h, reset)"
        using other[OF False, of st] step Cons.prems(1) by simp
      have cnt: "max_hits \<le> h + length (filter P (take j as))"
        using Cons.prems(5) Suc False by simp
      have "serve app st' as ! j = Limited too_many_requests"
        using Cons.IH[of st' h j, OF st' _ j Pj cnt] Cons.prems(2) by simp
      then show ?thesis using Suc step by simp
    qed
  qed
qed

lemma window_opens:
  assumes client: "\<And>st a. P a \<Longrightarrow>
             snd (app st a) = snd (limiter st k (arrival (request a))) \<and>
             (\<not> fst (limiter st k (arrival (request a))) \<longrightarrow>
                fst (app st a) = Limited too_many_requests)"
      and other: "\<And>st a. \<not> P a \<Longrightarrow> snd (app st a) k = st k"
      and first: "P a"
      and expired: "snd (st k) \<le> arrival (request a)"
      and inside: "\<forall>b\<in>set as. P b \<longrightarrow> arrival (request b) < arrival (request a) + windowMs"
  shows "handled_of P (a # as) (serve app st (a # as)) \<le> max_hits \<and>
         (\<forall>i<length (a # as).
            P ((a # as) ! i) \<and> max_hits \<le> length (filter P (take i (a # as))) \<longrightarrow>
            serve app st (a # as) ! i = Limited too_many_requests)"
proof -
  obtain out st' where step: "app st a = (out, st')" by (cases "app st a")
  obtain h reset where entry: "st k = (h, reset)" by (cases "st k")
  have lim: "limiter st k (arrival (request a)) =
               (True, st(k := (1, arrival (request a) + windowMs)))"
    using limiter_new[of st k h reset "arrival (request a)"] entry expired by simp
  have st': "st' k = (1, arrival (request a) + windowMs)"
    using client[OF first, of st] step lim by simp
  have "handled_of P as (serve app st' as) \<le> max_hits - 1"
    using window_handled[of P app k st' 1 "arrival (request a) + windowMs" as]
      client other st' inside by blast
  then have count: "handled_of P (a # as) (serve app st (a # as)) \<le> max_hits"
    using step by (simp add: handled_of_Cons max_hits_def)
  have "serve app st (a # as) ! i = Limited too_many_requests"
    if i: "i < length (a # as)" and Pi: "P ((a # as) ! i)"
      and full: "max_hits \<le> length (filter P (take i (a # as)))" for i
  proof (cases i)
    case 0
    then show ?thesis using full by (simp add: max_hits_def)
  next
    case (Suc j)
    have "serve app st' as ! j = Limited too_many_requests"
    proof (rule window_rejects[of P app k st' 1 "arrival (request a) + windowMs" as j])
      show "\<And>st a. P a \<Longrightarrow>
             snd (app st a) = snd (limiter st k (arrival (request a))) \<and>
             (\<not> fst (limiter st k (arrival (request a))) \<longrightarrow>
                fst (app st a) = Limited too_many_requests)"
        using client by blast
      show "\<And>st a. \<not> P a \<Longrightarrow> snd (app st a) k = st k" using other by blast
      show "st' k = (1, arrival (request a) + windowMs)" using st' .
      show "\<forall>a'\<in>set as. P a' \<longrightarrow> arrival (request a') < arrival (request a) + windowMs"
        using inside .
      show "j < length as" using i Suc by simp
      show "P (as ! j)" using Pi Suc by simp
      show "max_hits \<le> 1 + length (filter P (take j as))"
        using full Suc first by simp
    qed
    then show ?thesis using Suc step by simp
  qed
  then show ?thesis using count by blast
qed

text \<open>
  C4. Take a client identifier \<open>k\<close> and a request \<open>a\<close> of that client that opens a window
  (the client's previous window, if any, is over when \<open>a\<close> arrives), followed by any
  requests, of this and other clients, in which those of \<open>k\<close> arrive before the window
  ends, that is less than 15 minutes after \<open>a\<close>. Then at most 50 requests of the client reach
  the handler, and every request of the client that comes after 50 counted ones (the 51st
  and later) is answered by the limiter with its rejection, without the handler running and
  without an outbound call. Both variants.
\<close>

theorem quota_per_window:
  "(server_client e k a \<and> snd (st k) \<le> arrival (request a) \<and>
    (\<forall>b\<in>set as. server_client e k b \<longrightarrow> arrival (request b) < arrival (request a) + windowMs)
    \<longrightarrow>
      handled_of (server_client e k) (a # as)
        (serve (server_post_analyze e axios_post) st (a # as)) \<le> 50 \<and>
      (\<forall>i<length (a # as).
         server_client e k ((a # as) ! i) \<and>
         50 \<le> length (filter (server_client e k) (take i (a # as))) \<longrightarrow>
         serve (server_post_analyze e axios_post) st (a # as) ! i = Limited too_many_requests \<and>
         calls (serve (server_post_analyze e axios_post) st (a # as) ! i) = [])) \<and>
   (proxy_client k a \<and> snd (st k) \<le> arrival (request a) \<and>
    (\<forall>b\<in>set as. proxy_client k b \<longrightarrow> arrival (request b) < arrival (request a) + windowMs)
    \<longrightarrow>
      handled_of (proxy_client k) (a # as)
        (serve (proxy_post_analyze e axios_post) st (a # as)) \<le> 50 \<and>
      (\<forall>i<length (a # as).
         proxy_client k ((a # as) ! i) \<and>
         50 \<le> length (filter (proxy_client k) (take i (a # as))) \<longrightarrow>
         serve (proxy_post_analyze e axios_post) st (a # as) ! i = Limited too_many_requests \<and>
         calls (serve (proxy_post_analyze e axios_post) st (a # as) ! i) = []))"
proof (intro conjI impI)
  assume h: "server_client e k a \<and> snd (st k) \<le> arrival (request a) \<and>
    (\<forall>b\<in>set as. server_client e k b \<longrightarrow> arrival (request b) < arrival (request a) + windowMs)"
  have w: "handled_of (server_client e k) (a # as)
             (serve (server_post_analyze e axios_post) st (a # as)) \<le> max_hits \<and>
           (\<forall>i<length (a # as).
              server_client e k ((a # as) ! i) \<and>
              max_hits \<le> length (filter (server_client e k) (take i (a # as))) \<longrightarrow>
              serve (server_post_analyze e axios_post) st (a # as) ! i = Limited too_many_requests)"
    using window_opens[of "server_client e k" "server_post_analyze e axios_post" k a st as]
      server_client_step[of e k _ axios_post] server_other_step[of e k _ axios_post] h
    by blast
  show "handled_of (server_client e k) (a # as)
          (serve (server_post_analyze e axios_post) st (a # as)) \<le> 50"
    using w by (simp add: max_hits_def)
  show "\<forall>i<length (a # as).
         server_client e k ((a # as) ! i) \<and>
         50 \<le> length (filter (server_client e k) (take i (a # as))) \<longrightarrow>
         serve (server_post_analyze e axios_post) st (a # as) ! i = Limited too_many_requests \<and>
         calls (serve (server_post_analyze e axios_post) st (a # as) ! i) = []"
    using w by (simp add: max_hits_def)
next
  assume h: "proxy_client k a \<and> snd (st k) \<le> arrival (request a) \<and>
    (\<forall>b\<in>set as. proxy_client k b \<longrightarrow> arrival (request b) < arrival (request a) + windowMs)"
  have w: "handled_of (proxy_client k) (a # as)
             (serve (proxy_post_analyze e axios_post) st (a # as)) \<le> max_hits \<and>
           (\<forall>i<length (a # as).
              proxy_client k ((a # as) ! i) \<and>
              max_hits \<le> length (filter (proxy_client k) (take i (a # as))) \<longrightarrow>
              serve (proxy_post_analyze e axios_post) st (a # as) ! i = Limited too_many_requests)"
    using window_opens[of "proxy_client k" "proxy_post_analyze e axios_post" k a st as]
      proxy_client_step[of k _ e axios_post] proxy_other_step[of k _ e axios_post] h
    by blast
  show "handled_of (proxy_client k) (a # as)
          (serve (proxy_post_analyze e axios_post) st (a # as)) \<le> 50"
    using w by (simp add: max_hits_def)
  show "\<forall>i<length (a # as).
         proxy_client k ((a # as) ! i) \<and>
         50 \<le> length (filter (proxy_client k) (take i (a # as))) \<longrightarrow>
         serve (proxy_post_analyze e axios_post) st (a # as) ! i = Limited too_many_requests \<and>
         calls (serve (proxy_post_analyze e axios_post) st (a # as) ! i) = []"
    using w by (simp add: max_hits_def)
qed

lemma sample_is_client:
  "server_client sample_env ''203.0.113.7'' sample_arriving \<and>
   proxy_client ''203.0.113.7'' sample_arriving"
  by (simp add: server_client_def proxy_client_def sample_arriving_def sample_request_def
        server_cors_origin_def server_keyGenerator_def proxy_keyGenerator_def interpolate_def)

theorem quota_per_window_witness:
  "serve (server_post_analyze sample_env
            (stub_upstream (Resolved \<lparr> hf_status = 200, hf_data = JNull \<rparr>)))
     empty_store (sample_arriving # replicate 50 sample_arriving) ! 50 =
     Limited too_many_requests \<and>
   serve (proxy_post_analyze sample_env
            (stub_upstream (Resolved \<lparr> hf_status = 200, hf_data = JNull \<rparr>)))
     empty_store (sample_arriving # replicate 50 sample_arriving) ! 50 =
     Limited too_many_requests"
  using quota_per_window
          [of sample_env "''203.0.113.7''" sample_arriving empty_store
              "replicate 50 sample_arriving"
              "stub_upstream (Resolved \<lparr> hf_status = 200, hf_data = JNull \<rparr>)"]
    sample_is_client
  by (simp add: empty_store_def windowMs_def)

lemma proxy_fifty_first:
  "serve (proxy_post_analyze sample_env
            (stub_upstream (Resolved \<lparr> hf_status = 200, hf_data = JNull \<rparr>)))
     empty_store (sample_arriving # replicate 50 sample_arriving) ! 50 =
     Limited too_many_requests"
  using window_opens
          [of "proxy_client ''203.0.113.7''"
              "proxy_post_analyze sample_env
                 (stub_upstream (Resolved \<lparr> hf_status = 200, hf_data = JNull \<rparr>))"
              "''203.0.113.7''" sample_arriving empty_store "replicate 50 sample_arriving"]
        proxy_client_step[of "''203.0.113.7''" _ sample_env
              "stub_upstream (Resolved \<lparr> hf_status = 200, hf_data = JNull \<rparr>)"]
        proxy_other_step[of "''203.0.113.7''" _ sample_env
              "stub_upstream (Resolved \<lparr> hf_status = 200, hf_data = JNull \<rparr>)"]
        sample_is_client
  by (simp add: empty_store_def windowMs_def max_hits_def)

text \<open>
  C9, as stated, fails: the answer to the 51st request of a client within one window is the
  limiter's rejection, whose body is a plain text and has no \<^verbatim>\<open>error\<close> field.
\<close>

theorem error_field_counterexample:
  "status (reply
       (serve (proxy_post_analyze sample_env
                 (stub_upstream (Resolved \<lparr> hf_status = 200, hf_data = JNull \<rparr>)))
          empty_store (sample_arriving # replicate 50 sample_arriving) ! 50)) = 429 \<and>
   \<not> has_error_field (body (reply
       (serve (proxy_post_analyze sample_env
                 (stub_upstream (Resolved \<lparr> hf_status = 200, hf_data = JNull \<rparr>)))
          empty_store (sample_arriving # replicate 50 sample_arriving) ! 50)))"
  unfolding proxy_fifty_first by (simp add: too_many_requests_def)

text \<open>
  C9, amended. Of the error responses listed in the claim, all but two carry a JSON body
  with an \<^verbatim>\<open>error\<close> field: the client-input error, the upstream timeout, the
  upstream-reported error for a status other than 304, the transport failure, the CORS
  rejection (server file; \<^verbatim>\<open>proxy-server.js\<close> rejects no origin) and the answer of the
  error-handling middleware, which serves every route. The exceptions are the rate-limit
  rejection, an HTTP 429 whose body is the plain text
  \<^verbatim>\<open>Too many requests, please try again later.\<close>, and the upstream-reported error with
  status 304, which is sent without a body. Stated over the chain: an answer to a \<^verbatim>\<open>POST\<close>
  to \<^verbatim>\<open>/analyze\<close> has the field unless it is the limiter's rejection, the relay of a
  resolved upstream call, or the bare 304; and the error-handling middleware's answer has
  it for every error.
\<close>

theorem error_field_present:
  "((\<forall>c err r. axios_post c = Rejected err \<and> response err = Some r \<longrightarrow>
                rejected_status (hf_status r)) \<and>
    (out = fst (server_post_analyze e axios_post st a) \<or>
     out = fst (proxy_post_analyze e axios_post st a)) \<longrightarrow>
      has_error_field (body (reply out)) \<or>
      out = Limited too_many_requests \<or>
      (\<exists>c hfResponse.
         axios_post c = Resolved hfResponse \<and>
         out = Handled \<lparr> status = 200, body = JsonBody (hf_data hfResponse) \<rparr> [c]) \<or>
      (\<exists>c err r.
         axios_post c = Rejected err \<and> response err = Some r \<and> hf_status r = 304 \<and>
         out = Handled \<lparr> status = 304, body = NoBody \<rparr> [c])) \<and>
   has_error_field (body (server_error_middleware msg)) \<and>
   has_error_field (body (proxy_error_middleware e msg)) \<and>
   (server_cors_origin e orig = NotAllowedByCORS \<longrightarrow>
      has_error_field (body (server_error_middleware ''Not allowed by CORS'')))"
proof (intro conjI impI)
  assume h: "(\<forall>c err r. axios_post c = Rejected err \<and> response err = Some r \<longrightarrow>
                rejected_status (hf_status r)) \<and>
    (out = fst (server_post_analyze e axios_post st a) \<or>
     out = fst (proxy_post_analyze e axios_post st a))"
  have catches: "has_error_field (body (server_catch err)) \<or>
      (\<exists>r. response err = Some r \<and> bodiless (hf_status r) \<and>
           server_catch err = \<lparr> status = hf_status r, body = NoBody \<rparr>)"
    "has_error_field (body (proxy_catch e err)) \<or>
      (\<exists>r. response err = Some r \<and> bodiless (hf_status r) \<and>
           proxy_catch e err = \<lparr> status = hf_status r, body = NoBody \<rparr>)" for err
    by (auto simp add: server_catch_def proxy_catch_def res_json_def bodiless_def
          split: option.splits)
  have thrown_ok: "has_error_field (body (server_catch (thrown m)))"
    "has_error_field (body (proxy_catch e (thrown m)))" for m
    by (simp_all add: server_catch_def proxy_catch_def thrown_def res_json_def bodiless_def)
  have stops: "has_error_field (body (server_error_middleware m))"
    "has_error_field (body (proxy_error_middleware e m))"
    "has_error_field (body no_file_response)" for m
    by (simp_all add: server_error_middleware_def proxy_error_middleware_def
          no_file_response_def res_json_def bodiless_def)
  have handler: "has_error_field (body resp) \<or>
      (\<exists>c hfResponse. axios_post c = Resolved hfResponse \<and> cs = [c] \<and>
         resp = \<lparr> status = 200, body = JsonBody (hf_data hfResponse) \<rparr>) \<or>
      (\<exists>c err r. axios_post c = Rejected err \<and> response err = Some r \<and>
         hf_status r = 304 \<and> cs = [c] \<and> resp = \<lparr> status = 304, body = NoBody \<rparr>)"
    if "server_analyze e axios_post (request a) = (resp, cs) \<or>
        proxy_analyze e axios_post (request a) = (resp, cs)" for resp cs
  proof (cases "req_file (request a)")
    case None
    then show ?thesis
      using that stops(3) by (auto simp add: server_analyze_def proxy_analyze_def)
  next
    case (Some f)
    show ?thesis
    proof (cases "build_form (request a) f")
      case (Inl m)
      then show ?thesis
        using that Some thrown_ok[of m]
        by (auto simp add: server_analyze_def proxy_analyze_def)
    next
      case (Inr fd)
      show ?thesis
      proof (cases "axios_post (outbound_call e fd)")
        case (Resolved hfResponse)
        then show ?thesis
          using that Some Inr
          by (auto simp add: server_analyze_def proxy_analyze_def res_json_def bodiless_def)
      next
        case (Rejected err)
        have status_304: "hf_status r = 304"
          if "response err = Some r" and "bodiless (hf_status r)" for r
          using h Rejected that rejected_status_bodiless by blast
        have resp: "resp = server_catch err \<or> resp = proxy_catch e err"
          and cs: "cs = [outbound_call e fd]"
          using \<open>server_analyze e axios_post (request a) = (resp, cs) \<or>
                 proxy_analyze e axios_post (request a) = (resp, cs)\<close> Some Inr Rejected
          by (auto simp add: server_analyze_def proxy_analyze_def)
        show ?thesis
          using resp cs Rejected catches(1)[of err] catches(2)[of err] status_304
          by (metis axios_error.select_convs(2) option.inject)
      qed
    qed
  qed
  from h have "out = fst (server_post_analyze e axios_post st a) \<or>
     out = fst (proxy_post_analyze e axios_post st a)" by blast
  then show "has_error_field (body (reply out)) \<or>
      out = Limited too_many_requests \<or>
      (\<exists>c hfResponse.
         axios_post c = Resolved hfResponse \<and>
         out = Handled \<lparr> status = 200, body = JsonBody (hf_data hfResponse) \<rparr> [c]) \<or>
      (\<exists>c err r.
         axios_post c = Rejected err \<and> response err = Some r \<and> hf_status r = 304 \<and>
         out = Handled \<lparr> status = 304, body = NoBody \<rparr> [c])"
  proof
    assume o: "out = fst (server_post_analyze e axios_post st a)"
    show ?thesis
    proof (cases out)
      case (Handled resp cs)
      then have "server_analyze e axios_post (request a) = (resp, cs)"
        using o server_handled[of e axios_post st a resp cs] by simp
      then have answered: "has_error_field (body resp) \<or>
          (\<exists>c hfResponse. axios_post c = Resolved hfResponse \<and> cs = [c] \<and>
             resp = \<lparr> status = 200, body = JsonBody (hf_data hfResponse) \<rparr>) \<or>
          (\<exists>c err r. axios_post c = Rejected err \<and> response err = Some r \<and>
             hf_status r = 304 \<and> cs = [c] \<and> resp = \<lparr> status = 304, body = NoBody \<rparr>)"
        using handler[of resp cs] by simp
      show ?thesis
        unfolding Handled using answered
        by (elim disjE exE conjE)
           (simp, (rule disjI2, rule disjI2, rule disjI1, blast),
            (rule disjI2, rule disjI2, rule disjI2, blast))
    next
      case (Blocked resp)
      then show ?thesis
        using o stops(1)
        by (auto simp add: server_post_analyze_def
              split: cors_answer.splits prod.splits option.splits if_splits)
    next
      case (Limited resp)
      then show ?thesis
        using o
        by (auto simp add: server_post_analyze_def
              split: cors_answer.splits prod.splits option.splits if_splits)
    next
      case (Failed resp)
      then show ?thesis
        using o stops(1)
        by (auto simp add: server_post_analyze_def
              split: cors_answer.splits prod.splits option.splits if_splits)
    qed
  next
    assume o: "out = fst (proxy_post_analyze e axios_post st a)"
    show ?thesis
    proof (cases out)
      case (Handled resp cs)
      then have "proxy_analyze e axios_post (request a) = (resp, cs)"
        using o proxy_handled[of e axios_post st a resp cs] by simp
      then have answered: "has_error_field (body resp) \<or>
          (\<exists>c hfResponse. axios_post c = Resolved hfResponse \<and> cs = [c] \<and>
             resp = \<lparr> status = 200, body = JsonBody (hf_data hfResponse) \<rparr>) \<or>
          (\<exists>c err r. axios_post c = Rejected err \<and> response err = Some r \<and>
             hf_status r = 304 \<and> cs = [c] \<and> resp = \<lparr> status = 304, body = NoBody \<rparr>)"
        using handler[of resp cs] by simp
      show ?thesis
        unfolding Handled using answered
        by (elim disjE exE conjE)
           (simp, (rule disjI2, rule disjI2, rule disjI1, blast),
            (rule disjI2, rule disjI2, rule disjI2, blast))
    next
      case (Blocked resp)
      then show ?thesis
        using o
        by (auto simp add: proxy_post_analyze_def
              split: prod.splits option.splits if_splits)
    next
      case (Limited resp)
      then show ?thesis
        using o
        by (auto simp add: proxy_post_analyze_def
              split: prod.splits option.splits if_splits)
    next
      case (Failed resp)
      then show ?thesis
        using o stops(2)
        by (auto simp add: proxy_post_analyze_def
              split: prod.splits option.splits if_splits)
    qed
  qed
next
  show "has_error_field (body (server_error_middleware msg))"
    by (simp add: server_error_middleware_def res_json_def bodiless_def)
  show "has_error_field (body (proxy_error_middleware e msg))"
    by (simp add: proxy_error_middleware_def res_json_def bodiless_def)
  show "has_error_field (body (server_error_middleware ''Not allowed by CORS''))"
    by (simp add: server_error_middleware_def res_json_def bodiless_def)
qed

theorem error_field_present_witness:
  "has_error_field (body (reply (fst (server_post_analyze sample_env
       (stub_upstream (Rejected (sample_error (Some ''ECONNREFUSED'') None)))
       empty_store sample_arriving)))) \<and>
   has_error_field (body (reply (fst (proxy_post_analyze sample_env
       (stub_upstream (Rejected (sample_error (Some ''ECONNREFUSED'') None)))
       empty_store sample_arriving)))) \<and>
   has_error_field (body (reply (fst (server_post_analyze sample_env
       (stub_upstream (Rejected (sample_error (Some ''ECONNREFUSED'') None)))
       empty_store
       (sample_arriving \<lparr> request := (request sample_arriving)
                                        \<lparr> origin := Some ''http://evil.example'' \<rparr> \<rparr>)))))"
  using error_field_present
          [of "stub_upstream (Rejected (sample_error (Some ''ECONNREFUSED'') None))"
              "fst (server_post_analyze sample_env
                 (stub_upstream (Rejected (sample_error (Some ''ECONNREFUSED'') None)))
                 empty_store sample_arriving)"
              sample_env empty_store sample_arriving]
        error_field_present
          [of "stub_upstream (Rejected (sample_error (Some ''ECONNREFUSED'') None))"
              "fst (proxy_post_analyze sample_env
                 (stub_upstream (Rejected (sample_error (Some ''ECONNREFUSED'') None)))
                 empty_store sample_arriving)"
              sample_env empty_store sample_arriving]
  by (simp add: server_post_analyze_def proxy_post_analyze_def server_analyze_def
        proxy_analyze_def server_catch_def proxy_catch_def server_error_middleware_def
        sample_arriving_def sample_request_def sample_error_def sample_env_def
        stub_upstream_def empty_store_def limiter_def increment_def max_hits_def
        server_cors_origin_def allowedOrigins_def envOrigins_def build_form_def truthy_def
        server_keyGenerator_def proxy_keyGenerator_def interpolate_def res_json_def
        bodiless_def)

end
